theory Spec2Isabelle
  imports Complex_Main
begin

section \<open>Python values used by \<open>aer.py\<close>\<close>

text \<open>
  The operation kinds of pytket that \<open>aer.py\<close> names, and \<open>OtherOp\<close> for every
  other member of the enumeration \<open>OpType\<close>.
\<close>

datatype OpType =
    CX | TK1 | H | Rz | Barrier | Unitary1qBox | Unitary2qBox | Unitary3qBox
  | Reset | Measure | Conditional | RangePredicate | OtherOp string

text \<open>The three messages with which \<open>_process_noise_model\<close> raises \<open>RuntimeWarning\<close>.\<close>

datatype warning_msg =
    MultipleGates    \<comment> \<open>"Error applies to multiple gates."\<close>
  | AllQubitMethod   \<comment> \<open>"Please define NoiseModel without using the add_all_qubit_..."\<close>
  | BadErrorType     \<comment> \<open>"Error type not 'qerror' or 'roerror'."\<close>

text \<open>A result handle is the tuple \<open>(str, int, int, str)\<close> of \<open>_result_id_type\<close>; the
  job identifier of the engine is modelled by a number.\<close>

type_synonym ResultHandle = "nat \<times> int \<times> int \<times> string"

datatype error =
    AssertionError
  | KeyError
  | IndexError
  | TypeError
  | ValueError
  | RuntimeWarning warning_msg
  | RuntimeError
  | NotImplementedError
  | CircuitNotRunError ResultHandle
  | CircuitNotValidError
  | AttributeError

text \<open>
  A Python \<open>dict\<close> is an association list with distinct keys in insertion order.
  \<open>dict_get\<close> is \<open>d.get(k)\<close>, \<open>dict_set\<close> is \<open>d[k] = v\<close>: an existing key keeps its
  place, a new key goes last.
\<close>

type_synonym ('k, 'v) dict = "('k \<times> 'v) list"

definition dict_get :: "('k, 'v) dict \<Rightarrow> 'k \<Rightarrow> 'v option" where
  "dict_get d k = map_of d k"

fun dict_set :: "'k \<Rightarrow> 'v \<Rightarrow> ('k, 'v) dict \<Rightarrow> ('k, 'v) dict" where
  "dict_set k v [] = [(k, v)]"
| "dict_set k v (p # ps) = (if fst p = k then (k, v) # ps else p # dict_set k v ps)"

definition keys :: "('k, 'v) dict \<Rightarrow> 'k list" where
  "keys d = map fst d"

text \<open>\<open>dd[k]\<close> on a \<open>defaultdict(dict)\<close>, resp. \<open>defaultdict(list)\<close>: a missing key
  reads as the empty container (and is inserted by the write that follows).\<close>

definition dd_get :: "('k, 'v list) dict \<Rightarrow> 'k \<Rightarrow> 'v list" where
  "dd_get d k = (case dict_get d k of None \<Rightarrow> [] | Some v \<Rightarrow> v)"

text \<open>\<open>dd[k].update({op: v})\<close> on a \<open>defaultdict(dict)\<close>.\<close>

definition dd_update :: "'k \<Rightarrow> 'o \<Rightarrow> 'w \<Rightarrow> ('k, ('o, 'w) dict) dict \<Rightarrow> ('k, ('o, 'w) dict) dict" where
  "dd_update k opt v d = dict_set k (dict_set opt v (dd_get d k)) d"

text \<open>\<open>dd[k].append(x)\<close> on a \<open>defaultdict(list)\<close>.\<close>

definition dd_append :: "'k \<Rightarrow> 'x \<Rightarrow> ('k, 'x list) dict \<Rightarrow> ('k, 'x list) dict" where
  "dd_append k x d = dict_set k (dd_get d k @ [x]) d"

text \<open>
  A Python \<open>set\<close> of qubit indices is a duplicate-free list; \<open>set_add\<close> is \<open>s.add(x)\<close>.
  The order in which Python iterates over a set is not specified, so the theorems below
  speak of membership only.
\<close>

definition set_add :: "'a \<Rightarrow> 'a list \<Rightarrow> 'a list" where
  "set_add x s = (if x \<in> set s then s else s @ [x])"

definition set_diff :: "'a list \<Rightarrow> 'a list \<Rightarrow> 'a list" where
  "set_diff s t = filter (\<lambda>x. x \<notin> set t) s"

text \<open>\<open>itertools.permutations(xs, 2)\<close>: the pairs of entries at two different positions,
  in lexicographic order of the positions.\<close>

definition permutations2 :: "'a list \<Rightarrow> ('a \<times> 'a) list" where
  "permutations2 xs =
     map (\<lambda>(i, j). (xs ! i, xs ! j))
       (filter (\<lambda>(i, j). i \<noteq> j) (List.product [0..<length xs] [0..<length xs]))"

section \<open>The noise model and its characterisation\<close>

text \<open>
  An entry of \<open>error["probabilities"]\<close> is a float for a quantum error and a row of the
  confusion matrix for a readout error. Floats are modelled by real numbers.
\<close>

datatype prob = PFloat real | PList "real list"

text \<open>One element of \<open>noise_model.to_dict()["errors"]\<close>. The key \<open>"gate_qubits"\<close> may be
  missing (\<open>None\<close>); \<open>instructions\<close> is passed through unread.\<close>

record error_event =
  etype :: string
  operations :: "string list"
  gate_qubits :: "int list list option"
  probabilities :: "prob list"
  instructions :: "string list"

text \<open>A noise model is what \<open>to_dict()\<close> returns for it: a dict from section names to
  lists of entries.\<close>

type_synonym NoiseModel = "(string, error_event list) dict"

type_synonym Node = int

text \<open>pytket's \<open>Architecture(coupling)\<close> and \<open>FullyConnected(n)\<close>.\<close>

datatype Arch = Architecture "(Node \<times> Node) list" | FullyConnected int

type_synonym generic_log = "(string list \<times> prob list) list"

record NoiseModelCharacterisation =
  architecture :: Arch
  node_errors :: "(Node, (OpType, real) dict) dict option"
  edge_errors :: "(Node \<times> Node, (OpType, real) dict) dict option"
  readout_errors :: "(Node, prob list) dict option"
  averaged_node_errors :: "(Node, real) dict option"
  averaged_edge_errors :: "(Node \<times> Node, real) dict option"
  averaged_readout_errors :: "(Node, real) dict option"
  generic_q_errors ::
    "((int, generic_log) dict \<times> (int \<times> int, generic_log) dict) option"

text \<open>The local variables of \<open>_process_noise_model\<close> that its loop over the errors updates.\<close>

record nm_state =
  st_node_errors :: "(Node, (OpType, real) dict) dict"
  st_link_errors :: "(Node \<times> Node, (OpType, real) dict) dict"
  st_readout_errors :: "(Node, prob list) dict"
  generic_single_qerrors_dict :: "(int, generic_log) dict"
  generic_2q_qerrors_dict :: "(int \<times> int, generic_log) dict"
  qubits_set :: "int list"
  qubits_with_link_errors :: "int list"
  coupling_map :: "(int \<times> int) list"

definition init_state :: nm_state where
  "init_state = \<lparr> st_node_errors = [], st_link_errors = [], st_readout_errors = [],
     generic_single_qerrors_dict = [], generic_2q_qerrors_dict = [],
     qubits_set = [], qubits_with_link_errors = [], coupling_map = [] \<rparr>"

text \<open>\<open>float(1 - gate_fid)\<close> and \<open>float(1 - gate_fid**2)\<close>: a \<open>TypeError\<close> when
  \<open>gate_fid\<close> is a list.\<close>

fun one_minus :: "prob \<Rightarrow> error + real" where
  "one_minus (PFloat f) = Inr (1 - f)"
| "one_minus (PList _) = Inl TypeError"

fun one_minus_sq :: "prob \<Rightarrow> error + real" where
  "one_minus_sq (PFloat f) = Inr (1 - f ^ 2)"
| "one_minus_sq (PList _) = Inl TypeError"

text \<open>The branch \<open>len(qubits) == 1\<close> of the loop body. The table \<open>_gate_str_2_optype\<close> of
  \<open>qiskit_convert.py\<close> is the parameter \<open>tbl\<close>.\<close>

definition single_qubit_error ::
  "(string \<rightharpoonup> OpType) \<Rightarrow> nm_state \<Rightarrow> error_event \<Rightarrow> string \<Rightarrow> int \<Rightarrow> prob \<Rightarrow> error + nm_state"
where
  "single_qubit_error tbl st e name q gate_fid =
     (case tbl name of
        None \<Rightarrow> Inl KeyError
      | Some optype \<Rightarrow>
          (let st1 = st\<lparr> qubits_set := set_add q (qubits_set st) \<rparr> in
           if etype e = ''qerror'' then
             (case one_minus gate_fid of
                Inl err \<Rightarrow> Inl err
              | Inr v \<Rightarrow> Inr (st1\<lparr>
                  st_node_errors := dd_update q optype v (st_node_errors st1),
                  generic_single_qerrors_dict :=
                    dd_append q (instructions e, probabilities e)
                      (generic_single_qerrors_dict st1) \<rparr>))
           else if etype e = ''roerror'' then
             Inr (st1\<lparr> st_readout_errors :=
                    dict_set q (probabilities e) (st_readout_errors st1) \<rparr>)
           else Inl (RuntimeWarning BadErrorType)))"

text \<open>The branch \<open>len(qubits) == 2\<close>.\<close>

definition two_qubit_error ::
  "(string \<rightharpoonup> OpType) \<Rightarrow> nm_state \<Rightarrow> error_event \<Rightarrow> string \<Rightarrow> int \<Rightarrow> int \<Rightarrow> prob \<Rightarrow> error + nm_state"
where
  "two_qubit_error tbl st e name q0 q1 gate_fid =
     (case tbl name of
        None \<Rightarrow> Inl KeyError
      | Some optype \<Rightarrow>
          (case one_minus gate_fid of
             Inl err \<Rightarrow> Inl err
           | Inr v \<Rightarrow>
               (case one_minus_sq gate_fid of
                  Inl err \<Rightarrow> Inl err
                | Inr w \<Rightarrow> Inr (st\<lparr>
                    st_link_errors :=
                      dd_update (q1, q0) optype w (dd_update (q0, q1) optype v (st_link_errors st)),
                    qubits_with_link_errors :=
                      set_add q1 (set_add q0 (qubits_with_link_errors st)),
                    generic_2q_qerrors_dict :=
                      dd_append (q0, q1) (instructions e, probabilities e)
                        (generic_2q_qerrors_dict st),
                    coupling_map := coupling_map st @ [(q0, q1)] \<rparr>))))"

text \<open>The body of \<open>for error in errors\<close>, in the order of the source: the two checks that
  raise, \<open>name[0]\<close>, \<open>error["gate_qubits"][0]\<close>, \<open>error["probabilities"][0]\<close>, then the
  \<open>if\<close>/\<open>elif\<close> on \<open>len(qubits)\<close>, which has no \<open>else\<close>.\<close>

definition process_error :: "(string \<rightharpoonup> OpType) \<Rightarrow> nm_state \<Rightarrow> error_event \<Rightarrow> error + nm_state" where
  "process_error tbl st e =
     (if length (operations e) > 1 then Inl (RuntimeWarning MultipleGates)
      else case gate_qubits e of
        None \<Rightarrow> Inl (RuntimeWarning AllQubitMethod)
      | Some gq \<Rightarrow>
         (case operations e of
            [] \<Rightarrow> Inl IndexError
          | name # _ \<Rightarrow>
             (case gq of
                [] \<Rightarrow> Inl IndexError
              | qubits # _ \<Rightarrow>
                 (case probabilities e of
                    [] \<Rightarrow> Inl IndexError
                  | gate_fid # _ \<Rightarrow>
                     (case qubits of
                        [q] \<Rightarrow> single_qubit_error tbl st e name q gate_fid
                      | [q0, q1] \<Rightarrow> two_qubit_error tbl st e name q0 q1 gate_fid
                      | _ \<Rightarrow> Inr st)))))"

fun process_errors :: "(string \<rightharpoonup> OpType) \<Rightarrow> nm_state \<Rightarrow> error_event list \<Rightarrow> error + nm_state" where
  "process_errors tbl st [] = Inr st"
| "process_errors tbl st (e # es) =
     (case process_error tbl st e of
        Inl err \<Rightarrow> Inl err
      | Inr st' \<Rightarrow> process_errors tbl st' es)"

text \<open>The coupling list after the two loops over the free qubits.\<close>

definition free_qubits :: "nm_state \<Rightarrow> int list" where
  "free_qubits st = set_diff (qubits_set st) (qubits_with_link_errors st)"

definition complete_coupling :: "nm_state \<Rightarrow> (int \<times> int) list" where
  "complete_coupling st =
     coupling_map st
     @ concat (map (\<lambda>q. concat (map (\<lambda>lq. [(q, lq), (lq, q)]) (qubits_with_link_errors st)))
                   (free_qubits st))
     @ permutations2 (free_qubits st)"

text \<open>\<open>sum(v.values()) / len(v)\<close>; every inner dict has an entry, since it is created by
  the update that fills it.\<close>

definition average :: "(OpType, real) dict \<Rightarrow> real" where
  "average v = sum_list (map snd v) / real (length v)"

text \<open>\<open>(v[0][1] + v[1][0]) / 2.0\<close>, with the errors of the subscripts in the order in
  which Python evaluates them.\<close>

fun readout_average :: "prob list \<Rightarrow> error + real" where
  "readout_average [] = Inl IndexError"
| "readout_average (PFloat _ # _) = Inl TypeError"
| "readout_average (PList r0 # rest) =
     (if length r0 < 2 then Inl IndexError
      else case rest of
        [] \<Rightarrow> Inl IndexError
      | PFloat _ # _ \<Rightarrow> Inl TypeError
      | PList r1 # _ \<Rightarrow>
          (if r1 = [] then Inl IndexError else Inr ((r0 ! 1 + r1 ! 0) / 2)))"

fun readout_averages :: "(Node, prob list) dict \<Rightarrow> error + (Node, real) dict" where
  "readout_averages [] = Inr []"
| "readout_averages ((k, v) # d) =
     (case readout_average v of
        Inl err \<Rightarrow> Inl err
      | Inr a \<Rightarrow>
          (case readout_averages d of
             Inl err \<Rightarrow> Inl err
           | Inr r \<Rightarrow> Inr ((k, a) # r)))"

definition is_q_or_ro :: "error_event \<Rightarrow> bool" where
  "is_q_or_ro e \<longleftrightarrow> etype e = ''qerror'' \<or> etype e = ''roerror''"

text \<open>What follows the loops: the averages and the result record.\<close>

definition finish :: "nm_state \<Rightarrow> error + NoiseModelCharacterisation" where
  "finish st =
     (case readout_averages (st_readout_errors st) of
        Inl err \<Rightarrow> Inl err
      | Inr avg_ro \<Rightarrow> Inr \<lparr>
          architecture = Architecture (complete_coupling st),
          node_errors = Some (st_node_errors st),
          edge_errors = Some (st_link_errors st),
          readout_errors = Some (st_readout_errors st),
          averaged_node_errors = Some (map (\<lambda>(k, v). (k, average v)) (st_node_errors st)),
          averaged_edge_errors = Some (map (\<lambda>(k, v). (k, average v)) (st_link_errors st)),
          averaged_readout_errors = Some avg_ro,
          generic_q_errors =
            Some (generic_single_qerrors_dict st, generic_2q_qerrors_dict st) \<rparr>)"

definition process_noise_model ::
  "(string \<rightharpoonup> OpType) \<Rightarrow> NoiseModel \<Rightarrow> OpType set \<Rightarrow> error + NoiseModelCharacterisation"
where
  "process_noise_model tbl noise_model gate_set =
     (if CX \<notin> gate_set then Inl AssertionError
      else case dict_get noise_model ''errors'' of
        None \<Rightarrow> Inl KeyError
      | Some all_errors \<Rightarrow>
          (case process_errors tbl init_state (filter is_q_or_ro all_errors) of
             Inl err \<Rightarrow> Inl err
           | Inr st \<Rightarrow> finish st))"

subsection \<open>Vocabulary of the claims\<close>

text \<open>The entry of an operation kind in a dict of dicts.\<close>

definition lookup2 :: "('k, ('o, 'w) dict) dict \<Rightarrow> 'k \<Rightarrow> 'o \<Rightarrow> 'w option" where
  "lookup2 d k opt = (case dict_get d k of None \<Rightarrow> None | Some inner \<Rightarrow> dict_get inner opt)"

text \<open>The variable \<open>qubits\<close> of the loop: the first tuple of \<open>gate_qubits\<close>; the targets
  of the single-qubit events and the pairs of the two-qubit events, in order.\<close>

definition first_qubits :: "error_event \<Rightarrow> int list" where
  "first_qubits e = (case gate_qubits e of Some (qs # _) \<Rightarrow> qs | _ \<Rightarrow> [])"

definition single_targets :: "error_event list \<Rightarrow> int list" where
  "single_targets evs = concat (map first_qubits (filter (\<lambda>e. length (first_qubits e) = 1) evs))"

definition two_qubit_pairs :: "error_event list \<Rightarrow> (int \<times> int) list" where
  "two_qubit_pairs evs =
     map (\<lambda>e. (first_qubits e ! 0, first_qubits e ! 1)) (filter (\<lambda>e. length (first_qubits e) = 2) evs)"

text \<open>A two-qubit event writes the entries of its pair and of the reverse pair under its
  operation kind.\<close>

definition touches :: "(string \<rightharpoonup> OpType) \<Rightarrow> error_event \<Rightarrow> int \<times> int \<Rightarrow> OpType \<Rightarrow> bool" where
  "touches tbl e p k \<longleftrightarrow>
     length (first_qubits e) = 2 \<and>
     (p = (first_qubits e ! 0, first_qubits e ! 1) \<or> p = (first_qubits e ! 1, first_qubits e ! 0)) \<and>
     (case operations e of [] \<Rightarrow> False | n # _ \<Rightarrow> tbl n = Some k)"

text \<open>The qubits of a list of pairs; what a run of the loop has collected so far, and what
  a list of events adds to it.\<close>

definition linked_of :: "(int \<times> int) list \<Rightarrow> int set" where
  "linked_of ps = fst ` set ps \<union> snd ` set ps"

record summary =
  s_coupling :: "(int \<times> int) list"
  s_qubits :: "int set"
  s_linked :: "int set"
  s_keys :: "(int \<times> int) set"

definition summarise :: "nm_state \<Rightarrow> summary" where
  "summarise st = \<lparr> s_coupling = coupling_map st, s_qubits = set (qubits_set st),
     s_linked = set (qubits_with_link_errors st), s_keys = set (keys (st_link_errors st)) \<rparr>"

definition summary_after :: "summary \<Rightarrow> error_event list \<Rightarrow> summary" where
  "summary_after s evs = \<lparr> s_coupling = s_coupling s @ two_qubit_pairs evs,
     s_qubits = s_qubits s \<union> set (single_targets evs),
     s_linked = s_linked s \<union> linked_of (two_qubit_pairs evs),
     s_keys = s_keys s \<union> set (two_qubit_pairs evs) \<union> (set (two_qubit_pairs evs))\<inverse> \<rparr>"

text \<open>The sets and the dict of link errors have no duplicates.\<close>

definition wf_state :: "nm_state \<Rightarrow> bool" where
  "wf_state st \<longleftrightarrow> distinct (qubits_set st) \<and> distinct (qubits_with_link_errors st) \<and>
     distinct (keys (st_link_errors st))"

text \<open>The list \<open>errors\<close> of \<open>_process_noise_model\<close>, and readers of its result.\<close>

definition errors_of :: "NoiseModel \<Rightarrow> error_event list" where
  "errors_of nm = (case dict_get nm ''errors'' of None \<Rightarrow> [] | Some all_errors \<Rightarrow> filter is_q_or_ro all_errors)"

definition coupling_of :: "NoiseModelCharacterisation \<Rightarrow> (int \<times> int) list" where
  "coupling_of c = (case architecture c of Architecture cm \<Rightarrow> cm | FullyConnected _ \<Rightarrow> [])"

definition edge_error :: "NoiseModelCharacterisation \<Rightarrow> int \<times> int \<Rightarrow> OpType \<Rightarrow> real option" where
  "edge_error c p k = (case edge_errors c of None \<Rightarrow> None | Some d \<Rightarrow> lookup2 d p k)"

definition averaged_edge_error :: "NoiseModelCharacterisation \<Rightarrow> int \<times> int \<Rightarrow> real option" where
  "averaged_edge_error c p = (case averaged_edge_errors c of None \<Rightarrow> None | Some d \<Rightarrow> dict_get d p)"

definition edge_keys :: "NoiseModelCharacterisation \<Rightarrow> (int \<times> int) list" where
  "edge_keys c = (case edge_errors c of None \<Rightarrow> [] | Some d \<Rightarrow> keys d)"

text \<open>An event that names several operations or has no explicit target qubits.\<close>

definition malformed :: "error_event \<Rightarrow> bool" where
  "malformed e \<longleftrightarrow> length (operations e) > 1 \<or> gate_qubits e = None"

text \<open>A quantum error of one gate on given qubits whose first probability is \<open>f\<close>.\<close>

definition qerror_on :: "string \<Rightarrow> int list \<Rightarrow> real \<Rightarrow> error_event" where
  "qerror_on name qubits f = \<lparr> etype = ''qerror'', operations = [name],
     gate_qubits = Some [qubits], probabilities = [PFloat f, PFloat (1 - f)], instructions = [] \<rparr>"

text \<open>What a call returned, if it did not raise.\<close>

definition result_of :: "error + 'a \<Rightarrow> 'a option" where
  "result_of r = (case r of Inl _ \<Rightarrow> None | Inr x \<Rightarrow> Some x)"

text \<open>The free qubits: targets of single-qubit events that are in no pair.\<close>

definition free_set :: "error_event list \<Rightarrow> int set" where
  "free_set evs = set (single_targets evs) - linked_of (two_qubit_pairs evs)"

text \<open>A quantum error added for all qubits: it has no \<open>gate_qubits\<close>.\<close>

definition all_qubit_error :: "string \<Rightarrow> real \<Rightarrow> error_event" where
  "all_qubit_error name f = \<lparr> etype = ''qerror'', operations = [name],
     gate_qubits = None, probabilities = [PFloat f, PFloat (1 - f)], instructions = [] \<rparr>"

section \<open>Circuits, passes and the simulation engine\<close>

text \<open>A pytket qubit \<open>Qubit(reg_name, index)\<close> and a circuit, of which the backend reads
  its qubits and their number. \<open>circ_name\<close> tells circuits apart.\<close>

record Qubit =
  reg_name :: string
  index :: "nat list"

record Circuit =
  circ_name :: string
  n_qubits :: nat
  qubits :: "Qubit list"

datatype Pauli = Pauli_I | Pauli_X | Pauli_Y | Pauli_Z

text \<open>\<open>QubitPauliString.map\<close> and \<open>QubitPauliOperator._dict\<close> are dicts.\<close>

type_synonym QubitPauliString = "(Qubit, Pauli) dict"

type_synonym QubitPauliOperator = "(QubitPauliString, complex) dict"

text \<open>The operators handed to qiskit: \<open>qk_Pauli((z, x))\<close> and
  \<open>SparsePauliOp(strings, coeffs)\<close>.\<close>

datatype Hamiltonian =
    qk_Pauli "bool list \<times> bool list"
  | SparsePauliOp "string list" "complex list"

text \<open>What \<open>tk_to_qiskit\<close> returns, with the instruction a backend appends to it and
  whether \<open>transpile\<close> was applied.\<close>

datatype save_instr = save_state | save_density_matrix | save_unitary

record QuantumCircuit =
  tk_circuit :: Circuit
  replace_implicit_swaps :: bool
  saved :: "save_instr option"
  transpiled :: bool

record CrosstalkParams =
  get_noise_model :: NoiseModel

text \<open>A job of the engine: the arguments of \<open>run\<close> and the identifier the engine gave it.\<close>

record AerJob =
  job_id :: nat
  job_qcs :: "QuantumCircuit list"
  job_shots :: "int option"
  job_memory :: bool
  job_seed_simulator :: "int option"
  job_noise_model :: "NoiseModel option"

text \<open>The result of one experiment of a job, as \<open>qiskit_result_to_backendresult\<close> yields
  it: which job, which position in it, and the five \<open>include_\<close> flags. The engine returns one
  experiment per circuit of the job, in order.\<close>

record BackendResult =
  res_job :: AerJob
  res_position :: nat
  include_shots :: bool
  include_counts :: bool
  include_state :: bool
  include_unitary :: bool
  include_density_matrix :: bool

text \<open>An entry of \<open>_cache\<close>: the key \<open>"job"\<close>, and the key \<open>"result"\<close> once it is set.\<close>

record cache_entry =
  job :: AerJob
  result :: "BackendResult option"

datatype Predicate =
    NoSymbolsPredicate
  | GateSetPredicate "OpType set"
  | NoClassicalControlPredicate
  | DefaultRegisterPredicate
  | NoBarriersPredicate
  | NoFastFeedforwardPredicate
  | ConnectivityPredicate Arch

text \<open>\<open>_gen_lightsabre_transformation(arch)\<close> of \<open>ibm_utils.py\<close>, kept symbolic.\<close>

datatype Transformation = lightsabre_transformation Arch

datatype BasePass =
    DecomposeBoxes
  | AutoRebase "OpType set"
  | CustomPass Transformation string
  | SynthesiseTket
  | FullPeepholeOptimise
  | CliffordSimp bool
  | RemoveBarriers
  | GreedyPauliSimp int bool int
  | SequencePass "BasePass list"

record BackendInfo =
  bi_name :: string
  device_name :: string
  bi_architecture :: Arch
  gate_set :: "OpType set"
  supports_midcircuit_measurement :: bool
  supports_fast_feedforward :: bool
  supports_reset :: bool
  all_node_gate_errors :: "(Node, (OpType, real) dict) dict option"
  all_edge_gate_errors :: "(Node \<times> Node, (OpType, real) dict) dict option"
  all_readout_errors :: "(Node, prob list) dict option"
  averaged_node_gate_errors :: "(Node, real) dict option"
  averaged_edge_gate_errors :: "(Node \<times> Node, real) dict option"
  averaged_readout_errors_info :: "(Node, real) dict option"
  misc_characterisation ::
    "((int, generic_log) dict \<times> (int \<times> int, generic_log) dict) option"

text \<open>The configuration of a qiskit Aer backend, as far as it is read.\<close>

record QiskitAerBackend =
  qk_name :: string
  basis_gates :: "string list"
  qk_method :: string

text \<open>The attributes of \<open>_AerBaseBackend\<close>, and two counters for the engine: the calls of
  \<open>run\<close> (which also numbers the jobs) and the calls of \<open>job.result()\<close>.\<close>

record Backend =
  qiskit_backend :: QiskitAerBackend
  backend_info :: BackendInfo
  memory :: bool
  required_predicates :: "Predicate list"
  noise_model :: "NoiseModel option"
  has_arch :: bool
  needs_transpile :: bool
  crosstalk_params :: "CrosstalkParams option"
  supports_shots :: bool
  supports_counts :: bool
  supports_state :: bool
  supports_unitary :: bool
  supports_density_matrix :: bool
  supports_expectation :: bool
  cache :: "(ResultHandle, cache_entry) dict"
  run_calls :: nat
  result_calls :: nat

text \<open>The collaborators outside \<open>aer.py\<close>: the predicate check of pytket, pytket's
  \<open>prepare_circuit\<close> (with the post-processing circuit already as its JSON string), the
  crosstalk circuit builder, and what the engine saves under \<open>"snap"\<close>.\<close>

record Env =
  verify :: "Predicate \<Rightarrow> Circuit \<Rightarrow> bool"
  prepare_circuit :: "Circuit \<Rightarrow> Circuit \<times> string"
  noisy_circuit :: "CrosstalkParams \<Rightarrow> Circuit \<Rightarrow> Circuit"
  snap :: "QuantumCircuit \<Rightarrow> Hamiltonian \<Rightarrow> complex"

section \<open>Construction of the backend\<close>

definition tket_gate_set_from_qiskit_backend ::
  "(string \<rightharpoonup> OpType) \<Rightarrow> QiskitAerBackend \<Rightarrow> OpType set" where
  "tket_gate_set_from_qiskit_backend tbl qb =
     set (List.map_filter tbl (basis_gates qb))
     \<union> {Barrier}
     \<union> (if ''unitary'' \<in> set (basis_gates qb) then {Unitary1qBox, Unitary2qBox, Unitary3qBox} else {})
     \<union> {Reset, Measure, Conditional, TK1}"

text \<open>\<open>qiskit_aer_backend\<close>; \<open>aer_backends\<close> is the list \<open>Aer.backends()\<close>. The warning
  for several candidates is not an error.\<close>

definition qiskit_aer_backend :: "QiskitAerBackend list \<Rightarrow> string \<Rightarrow> error + QiskitAerBackend" where
  "qiskit_aer_backend aer_backends backend_name =
     (case filter (\<lambda>b. qk_name b = backend_name) aer_backends of
        [] \<Rightarrow> Inl ValueError
      | b # _ \<Rightarrow> Inr b)"

text \<open>A \<open>NoiseModel\<close> object is truthy, so the test is on the values of \<open>to_dict()\<close>.\<close>

definition map_trivial_noise_model_to_none :: "NoiseModel option \<Rightarrow> NoiseModel option" where
  "map_trivial_noise_model_to_none nm_arg =
     (case nm_arg of
        None \<Rightarrow> None
      | Some nm \<Rightarrow> if list_all (\<lambda>v. v = []) (map snd nm) then None else Some nm)"

definition get_characterisation_of_noise_model ::
  "(string \<rightharpoonup> OpType) \<Rightarrow> NoiseModel option \<Rightarrow> OpType set \<Rightarrow> error + NoiseModelCharacterisation"
where
  "get_characterisation_of_noise_model tbl nm_arg gs =
     (case nm_arg of
        None \<Rightarrow> Inr \<lparr> architecture = Architecture [], node_errors = None, edge_errors = None,
                 readout_errors = None, averaged_node_errors = None, averaged_edge_errors = None,
                 averaged_readout_errors = None, generic_q_errors = None \<rparr>
      | Some nm \<Rightarrow> process_noise_model tbl nm gs)"

text \<open>\<open>architecture.nodes\<close>: the nodes that occur in the coupling, each once; the nodes
  \<open>0, \<dots>, n - 1\<close> of \<open>FullyConnected(n)\<close>.\<close>

fun nodes :: "Arch \<Rightarrow> Node list" where
  "nodes (Architecture cm) = remdups (concat (map (\<lambda>(a, b). [a, b]) cm))"
| "nodes (FullyConnected n) = map int [0..<nat n]"

text \<open>\<open>arch.coupling\<close>, an attribute that \<open>FullyConnected\<close> does not have.\<close>

fun coupling :: "Arch \<Rightarrow> (Node \<times> Node) list option" where
  "coupling (Architecture cm) = Some cm"
| "coupling (FullyConnected n) = None"

definition allowed_special_gates :: "OpType set" where
  "allowed_special_gates = {Measure, Barrier, Reset, RangePredicate}"

text \<open>\<open>BackendInfo(name, device_name, version, architecture, gate_set)\<close> with the defaults
  of every other argument.\<close>

definition plain_backend_info :: "string \<Rightarrow> string \<Rightarrow> Arch \<Rightarrow> OpType set \<Rightarrow> BackendInfo" where
  "plain_backend_info nm dev arch gs =
     \<lparr> bi_name = nm, device_name = dev, bi_architecture = arch, gate_set = gs,
       supports_midcircuit_measurement = False, supports_fast_feedforward = False,
       supports_reset = False, all_node_gate_errors = None, all_edge_gate_errors = None,
       all_readout_errors = None, averaged_node_gate_errors = None,
       averaged_edge_gate_errors = None, averaged_readout_errors_info = None,
       misc_characterisation = None \<rparr>"

text \<open>The class attributes of \<open>AerBackend\<close> over those of \<open>_AerBaseBackend\<close>, with the
  empty cache of \<open>Backend.__init__\<close>.\<close>

definition AerBackend_attributes :: "QiskitAerBackend \<Rightarrow> BackendInfo \<Rightarrow> Backend" where
  "AerBackend_attributes qb info =
     \<lparr> qiskit_backend = qb, backend_info = info, memory = True, required_predicates = [],
       noise_model = None, has_arch = False, needs_transpile = False, crosstalk_params = None,
       supports_shots = True, supports_counts = True, supports_state = False,
       supports_unitary = False, supports_density_matrix = False, supports_expectation = True,
       cache = [], run_calls = 0, result_calls = 0 \<rparr>"

text \<open>\<open>AerBackend.__init__\<close>.\<close>

definition AerBackend_init ::
  "(string \<rightharpoonup> OpType) \<Rightarrow> QiskitAerBackend list \<Rightarrow> NoiseModel option \<Rightarrow> string \<Rightarrow>
     CrosstalkParams option \<Rightarrow> int \<Rightarrow> error + Backend"
where
  "AerBackend_init tbl aer_backends nm_arg simulation_method crosstalk n_qubits_arg =
     (case qiskit_aer_backend aer_backends ''aer_simulator'' of
        Inl err \<Rightarrow> Inl err
      | Inr qb0 \<Rightarrow>
          (let qb = qb0\<lparr> qk_method := simulation_method \<rparr>;
               gs = tket_gate_set_from_qiskit_backend tbl qb \<union> allowed_special_gates
           in case crosstalk of
                Some cp \<Rightarrow>
                  Inr ((AerBackend_attributes qb
                         (plain_backend_info ''AerBackend'' ''aer_simulator'' (Architecture []) gs))
                       \<lparr> crosstalk_params := Some cp,
                         noise_model := Some (get_noise_model cp),
                         required_predicates :=
                           [NoSymbolsPredicate, GateSetPredicate gs, NoClassicalControlPredicate,
                            DefaultRegisterPredicate, NoBarriersPredicate] \<rparr>)
              | None \<Rightarrow>
                  (let nm = map_trivial_noise_model_to_none nm_arg in
                   case get_characterisation_of_noise_model tbl nm gs of
                     Inl err \<Rightarrow> Inl err
                   | Inr characterisation \<Rightarrow>
                       (let ha = (nodes (architecture characterisation) \<noteq> []);
                            arch = (if ha then architecture characterisation
                                    else FullyConnected n_qubits_arg);
                            info = (plain_backend_info ''AerBackend'' ''aer_simulator'' arch gs)
                              \<lparr> supports_midcircuit_measurement := True,
                                supports_fast_feedforward := True,
                                all_node_gate_errors := node_errors characterisation,
                                all_edge_gate_errors := edge_errors characterisation,
                                all_readout_errors := readout_errors characterisation,
                                averaged_node_gate_errors := averaged_node_errors characterisation,
                                averaged_edge_gate_errors := averaged_edge_errors characterisation,
                                averaged_readout_errors_info :=
                                  averaged_readout_errors characterisation,
                                misc_characterisation := generic_q_errors characterisation \<rparr>
                        in Inr ((AerBackend_attributes qb info)
                             \<lparr> noise_model := nm, has_arch := ha,
                               required_predicates :=
                                 [NoSymbolsPredicate, GateSetPredicate gs]
                                 @ (if ha then [ConnectivityPredicate arch] else []) \<rparr>)))))"

text \<open>\<open>AerUnitaryBackend.__init__\<close>; the class sets neither \<open>_supports_expectation\<close> nor
  \<open>_supports_shots\<close>, which pytket's \<open>Backend\<close> has as \<open>False\<close>.\<close>

definition AerUnitaryBackend_init ::
  "(string \<rightharpoonup> OpType) \<Rightarrow> QiskitAerBackend list \<Rightarrow> int \<Rightarrow> error + Backend" where
  "AerUnitaryBackend_init tbl aer_backends n_qubits_arg =
     (case qiskit_aer_backend aer_backends ''aer_simulator_unitary'' of
        Inl err \<Rightarrow> Inl err
      | Inr qb \<Rightarrow>
          (let gs = tket_gate_set_from_qiskit_backend tbl qb;
               info = (plain_backend_info ''AerUnitaryBackend'' ''aer_simulator_unitary''
                         (FullyConnected n_qubits_arg) gs)
                      \<lparr> supports_midcircuit_measurement := True \<rparr>
           in Inr \<lparr> qiskit_backend = qb, backend_info = info, memory = False,
                required_predicates =
                  [NoClassicalControlPredicate, NoFastFeedforwardPredicate, GateSetPredicate gs],
                noise_model = None, has_arch = False, needs_transpile = True,
                crosstalk_params = None, supports_shots = False, supports_counts = False,
                supports_state = False, supports_unitary = True,
                supports_density_matrix = False, supports_expectation = False,
                cache = [], run_calls = 0, result_calls = 0 \<rparr>))"

text \<open>The noise models of which \<open>_map_trivial_noise_model_to_none\<close> makes \<open>None\<close>.\<close>

definition trivial_noise_model :: "NoiseModel option \<Rightarrow> bool" where
  "trivial_noise_model nm_arg =
     (case nm_arg of None \<Rightarrow> True | Some nm \<Rightarrow> list_all (\<lambda>v. v = []) (map snd nm))"

section \<open>The default compilation pass\<close>

definition rebase_pass :: "Backend \<Rightarrow> BasePass" where
  "rebase_pass b = AutoRebase (gate_set (backend_info b))"

definition arch_dependent_default_compilation_pass ::
  "Backend \<Rightarrow> Arch \<Rightarrow> int \<Rightarrow> int \<Rightarrow> error + BasePass" where
  "arch_dependent_default_compilation_pass b arch optimisation_level timeout =
     (if \<not> (0 \<le> optimisation_level \<and> optimisation_level < 4) then Inl AssertionError
      else
        (let arch_specific_passes =
               [AutoRebase {CX, TK1},
                CustomPass (lightsabre_transformation arch) ''lightsabrepass'']
         in if optimisation_level = 0 then
              Inr (SequencePass
                ([DecomposeBoxes, rebase_pass b] @ arch_specific_passes @ [rebase_pass b]))
            else if optimisation_level = 1 then
              Inr (SequencePass
                ([DecomposeBoxes, SynthesiseTket] @ arch_specific_passes @ [SynthesiseTket]))
            else if optimisation_level = 2 then
              Inr (SequencePass
                ([DecomposeBoxes, FullPeepholeOptimise] @ arch_specific_passes
                 @ [CliffordSimp False, SynthesiseTket]))
            else
              Inr (SequencePass
                ([DecomposeBoxes, RemoveBarriers, AutoRebase {CX, H, Rz},
                  GreedyPauliSimp timeout True 10]
                 @ arch_specific_passes @ [SynthesiseTket]))))"

definition arch_independent_default_compilation_pass ::
  "Backend \<Rightarrow> int \<Rightarrow> int \<Rightarrow> error + BasePass" where
  "arch_independent_default_compilation_pass b optimisation_level timeout =
     (if \<not> (0 \<le> optimisation_level \<and> optimisation_level < 4) then Inl AssertionError
      else if optimisation_level = 0 then Inr (SequencePass [DecomposeBoxes, rebase_pass b])
      else if optimisation_level = 1 then Inr (SequencePass [DecomposeBoxes, SynthesiseTket])
      else if optimisation_level = 2 then Inr (SequencePass [DecomposeBoxes, FullPeepholeOptimise])
      else Inr (SequencePass
             [DecomposeBoxes, RemoveBarriers, AutoRebase {CX, H, Rz},
              GreedyPauliSimp timeout True 10]))"

text \<open>\<open>default_compilation_pass\<close>; \<open>and\<close> reads \<open>arch.coupling\<close> only when \<open>_has_arch\<close>
  holds.\<close>

definition default_compilation_pass :: "Backend \<Rightarrow> int \<Rightarrow> int \<Rightarrow> error + BasePass" where
  "default_compilation_pass b optimisation_level timeout =
     (let arch = bi_architecture (backend_info b) in
      if has_arch b then
        (case coupling arch of
           None \<Rightarrow> Inl AttributeError
         | Some cm \<Rightarrow>
             if cm \<noteq> [] then
               arch_dependent_default_compilation_pass b arch optimisation_level timeout
             else arch_independent_default_compilation_pass b optimisation_level timeout)
      else arch_independent_default_compilation_pass b optimisation_level timeout)"

text \<open>The stages that depend on the architecture, the stages that route (the custom
  passes), and the two stages with which a sequence ends.\<close>

definition is_routing_stage :: "BasePass \<Rightarrow> bool" where
  "is_routing_stage p = (case p of CustomPass _ _ \<Rightarrow> True | _ \<Rightarrow> False)"

definition routing_stages :: "Arch \<Rightarrow> BasePass list" where
  "routing_stages arch =
     [AutoRebase {CX, TK1}, CustomPass (lightsabre_transformation arch) ''lightsabrepass'']"

definition is_final_stage :: "Backend \<Rightarrow> BasePass \<Rightarrow> bool" where
  "is_final_stage b p \<longleftrightarrow> p = rebase_pass b \<or> p = SynthesiseTket"

section \<open>Submission and the result cache\<close>

text \<open>pytket's \<open>Backend._get_n_shots_as_list(n_shots, n_circuits, optional=True)\<close>: one
  shot count for all circuits, or a sequence whose length must be the number of circuits.\<close>

datatype n_shots_arg = NoShots | Shots int | ShotsSeq "int option list"

definition get_n_shots_as_list :: "n_shots_arg \<Rightarrow> nat \<Rightarrow> error + int option list" where
  "get_n_shots_as_list n_shots n_circuits =
     (case n_shots of
        NoShots \<Rightarrow> Inr (replicate n_circuits None)
      | Shots n \<Rightarrow> Inr (replicate n_circuits (Some n))
      | ShotsSeq ns \<Rightarrow> if length ns \<noteq> n_circuits then Inl ValueError else Inr ns)"

text \<open>pytket's \<open>Backend._check_all_circuits\<close>: every circuit must satisfy every required
  predicate.\<close>

definition check_all_circuits :: "Env \<Rightarrow> Backend \<Rightarrow> Circuit list \<Rightarrow> error + unit" where
  "check_all_circuits env b circuits =
     (if list_all (\<lambda>c. list_all (\<lambda>p. verify env p c) (required_predicates b)) circuits
      then Inr () else Inl CircuitNotValidError)"

text \<open>
  Modelled from the spec: \<open>_batch_circuits\<close> of \<open>ibm_utils.py\<close>, which is not among the
  sources. Circuits with the same shot count form one group, in submission order; the second
  component gives, for each group, the positions its circuits had in the input.
\<close>

definition batch_circuits ::
  "Circuit list \<Rightarrow> int option list \<Rightarrow> (int option \<times> Circuit list) list \<times> nat list list" where
  "batch_circuits circuits n_shots =
     (let shot_counts = remdups n_shots;
          batch_order = map (\<lambda>n. filter (\<lambda>i. n_shots ! i = n) [0..<length n_shots]) shot_counts
      in (map (\<lambda>(n, indices). (n, map (\<lambda>i. circuits ! i) indices)) (zip shot_counts batch_order),
          batch_order))"

text \<open>The body of \<open>for tkc in batch\<close>: the qiskit circuit, the qubit count and the JSON
  string of the post-processing circuit (\<open>json.dumps(None)\<close> is \<open>null\<close>).\<close>

definition lower_circuit :: "Env \<Rightarrow> Backend \<Rightarrow> bool \<Rightarrow> Circuit \<Rightarrow> QuantumCircuit \<times> nat \<times> string" where
  "lower_circuit env b postprocess tkc =
     (let (c0, ppcirc_str) = (if postprocess then prepare_circuit env tkc else (tkc, ''null''));
          qc = \<lparr> tk_circuit = c0,
                 replace_implicit_swaps = (supports_state b \<or> supports_unitary b),
                 saved = (if supports_state b then Some save_state
                          else if supports_density_matrix b then Some save_density_matrix
                          else if supports_unitary b then Some save_unitary
                          else None),
                 transpiled = False \<rparr>
      in (qc, n_qubits c0, ppcirc_str))"

text \<open>\<open>for i, ind in enumerate(indices)\<close>: the handle of position \<open>i\<close> goes to place
  \<open>ind\<close> of the handle list and gets a fresh cache entry.\<close>

fun store_handles ::
  "AerJob \<Rightarrow> nat list \<Rightarrow> string list \<Rightarrow> nat \<Rightarrow> nat list \<Rightarrow>
     ResultHandle option list \<times> (ResultHandle, cache_entry) dict \<Rightarrow>
     (error option) \<times> ResultHandle option list \<times> (ResultHandle, cache_entry) dict" where
  "store_handles j counts ppcs i [] (handle_list, c) = (None, handle_list, c)"
| "store_handles j counts ppcs i (ind # indices) (handle_list, c) =
     (if i \<ge> length counts \<or> i \<ge> length ppcs then (Some IndexError, handle_list, c)
      else
        (let handle = (job_id j, int i, int (counts ! i), ppcs ! i) in
         if ind \<ge> length handle_list then (Some IndexError, handle_list, c)
         else store_handles j counts ppcs (Suc i) indices
                (handle_list[ind := Some handle],
                 dict_set handle \<lparr> job = j, result = None \<rparr> c)))"

text \<open>The loop over the batches: one call of \<open>run\<close> per batch.\<close>

fun run_batches ::
  "Env \<Rightarrow> bool \<Rightarrow> int option \<Rightarrow> ((int option \<times> Circuit list) \<times> nat list) list \<Rightarrow>
     ResultHandle option list \<Rightarrow> Backend \<Rightarrow> (error + ResultHandle option list) \<times> Backend" where
  "run_batches env postprocess seed [] handle_list b = (Inr handle_list, b)"
| "run_batches env postprocess seed (((n_shots, batch), indices) # rest) handle_list b =
     (let lowered = map (lower_circuit env b postprocess) batch;
          qcs = map fst lowered;
          tkc_qubits_count = map (\<lambda>t. fst (snd t)) lowered;
          ppcirc_strs = map (\<lambda>t. snd (snd t)) lowered;
          qcs' = (if needs_transpile b then map (\<lambda>qc. qc\<lparr> transpiled := True \<rparr>) qcs else qcs);
          j = \<lparr> job_id = run_calls b, job_qcs = qcs', job_shots = n_shots,
                job_memory = memory b, job_seed_simulator = seed,
                job_noise_model = noise_model b \<rparr>;
          seed' = map_option (\<lambda>s. s + 1) seed
      in case store_handles j tkc_qubits_count ppcirc_strs 0 indices (handle_list, cache b) of
           (Some err, handle_list', cache') \<Rightarrow>
             (Inl err, b\<lparr> cache := cache', run_calls := Suc (run_calls b) \<rparr>)
         | (None, handle_list', cache') \<Rightarrow>
             run_batches env postprocess seed' rest handle_list'
               (b\<lparr> cache := cache', run_calls := Suc (run_calls b) \<rparr>))"

text \<open>\<open>process_circuits\<close> with the keyword arguments \<open>postprocess\<close> and \<open>seed\<close>.\<close>

definition process_circuits ::
  "Env \<Rightarrow> Backend \<Rightarrow> Circuit list \<Rightarrow> n_shots_arg \<Rightarrow> bool \<Rightarrow> bool \<Rightarrow> int option \<Rightarrow>
     (error + ResultHandle option list) \<times> Backend" where
  "process_circuits env b circuits n_shots valid_check postprocess seed =
     (case get_n_shots_as_list n_shots (length circuits) of
        Inl err \<Rightarrow> (Inl err, b)
      | Inr n_shots_list \<Rightarrow>
          (case (if valid_check then check_all_circuits env b circuits else Inr ()) of
             Inl err \<Rightarrow> (Inl err, b)
           | Inr _ \<Rightarrow>
               (let circuits' = (case crosstalk_params b of
                                   None \<Rightarrow> circuits
                                 | Some cp \<Rightarrow> map (noisy_circuit env cp) circuits);
                    (circuit_batches, batch_order) = batch_circuits circuits' n_shots_list
                in run_batches env postprocess seed (zip circuit_batches batch_order)
                     (replicate (length circuits') None) b)))"

text \<open>pytket's \<open>Backend.get_result\<close>: the cached result, or \<open>CircuitNotRunError\<close>.\<close>

definition super_get_result :: "Backend \<Rightarrow> ResultHandle \<Rightarrow> error + BackendResult" where
  "super_get_result b handle =
     (case dict_get (cache b) handle of
        None \<Rightarrow> Inl (CircuitNotRunError handle)
      | Some entry \<Rightarrow>
          (case result entry of
             None \<Rightarrow> Inl (CircuitNotRunError handle)
           | Some r \<Rightarrow> Inr r))"

text \<open>
  Modelled from the spec: \<open>qiskit_result_to_backendresult\<close> of \<open>result_convert.py\<close>,
  which is not among the sources, applied to \<open>job.result()\<close>. It yields one result per
  circuit position of the job, in order.
\<close>

definition job_backresults :: "Backend \<Rightarrow> AerJob \<Rightarrow> BackendResult list" where
  "job_backresults b j =
     map (\<lambda>i. \<lparr> res_job = j, res_position = i,
                 include_shots = supports_shots b, include_counts = supports_counts b,
                 include_state = supports_state b, include_unitary = supports_unitary b,
                 include_density_matrix = supports_density_matrix b \<rparr>)
         [0..<length (job_qcs j)]"

text \<open>\<open>for circ_index, backres in enumerate(backresults)\<close>: the entry that is written is the
  one under \<open>ResultHandle(jobid, circ_index, qubit_n, ppc)\<close>, with \<open>qubit_n\<close> and \<open>ppc\<close>
  those of the handle that was asked for; a missing entry is a \<open>KeyError\<close>.\<close>

fun store_results ::
  "nat \<Rightarrow> int \<Rightarrow> string \<Rightarrow> nat \<Rightarrow> BackendResult list \<Rightarrow> (ResultHandle, cache_entry) dict \<Rightarrow>
     error option \<times> (ResultHandle, cache_entry) dict" where
  "store_results jobid qubit_n ppc circ_index [] c = (None, c)"
| "store_results jobid qubit_n ppc circ_index (backres # backresults) c =
     (case dict_get c (jobid, int circ_index, qubit_n, ppc) of
        None \<Rightarrow> (Some KeyError, c)
      | Some entry \<Rightarrow>
          store_results jobid qubit_n ppc (Suc circ_index) backresults
            (dict_set (jobid, int circ_index, qubit_n, ppc) (entry\<lparr> result := Some backres \<rparr>) c))"

text \<open>\<open>_AerBaseBackend.get_result\<close>.\<close>

definition get_result :: "Backend \<Rightarrow> ResultHandle \<Rightarrow> (error + BackendResult) \<times> Backend" where
  "get_result b handle =
     (case super_get_result b handle of
        Inr r \<Rightarrow> (Inr r, b)
      | Inl _ \<Rightarrow>
          (case handle of (jobid, _, qubit_n, ppc) \<Rightarrow>
            (case dict_get (cache b) handle of
               None \<Rightarrow> (Inl (CircuitNotRunError handle), b)
             | Some entry \<Rightarrow>
                 (let b1 = b\<lparr> result_calls := Suc (result_calls b) \<rparr>;
                      backresults = job_backresults b (job entry)
                  in case store_results jobid qubit_n ppc 0 backresults (cache b1) of
                       (Some err, cache') \<Rightarrow> (Inl err, b1\<lparr> cache := cache' \<rparr>)
                     | (None, cache') \<Rightarrow>
                         (case dict_get cache' handle of
                            None \<Rightarrow> (Inl KeyError, b1\<lparr> cache := cache' \<rparr>)
                          | Some entry' \<Rightarrow>
                              (case result entry' of
                                 None \<Rightarrow> (Inl KeyError, b1\<lparr> cache := cache' \<rparr>)
                               | Some r \<Rightarrow> (Inr r, b1\<lparr> cache := cache' \<rparr>)))))))"

section \<open>Snapshot expectation values\<close>

definition default_q_index :: "Qubit \<Rightarrow> error + nat" where
  "default_q_index q =
     (case index q of
        [i] \<Rightarrow> if reg_name q \<noteq> ''q'' then Inl ValueError else Inr i
      | _ \<Rightarrow> Inl ValueError)"

text \<open>\<open>all(q_ind == i for q_ind, i in zip(q_indices, range(len(circ_qbs))))\<close>: the generator
  stops at the first position that differs, and \<open>_default_q_index\<close> raises for a qubit only
  if the generator gets to it.\<close>

fun contiguous_from :: "nat \<Rightarrow> Qubit list \<Rightarrow> error + bool" where
  "contiguous_from i [] = Inr True"
| "contiguous_from i (q # qs) =
     (case default_q_index q of
        Inl err \<Rightarrow> Inl err
      | Inr q_ind \<Rightarrow> if q_ind = i then contiguous_from (Suc i) qs else Inr False)"

text \<open>\<open>_snapshot_expectation_value\<close>: one call of \<open>run\<close> and one of \<open>job.result()\<close>.\<close>

definition snapshot_expectation_value ::
  "Env \<Rightarrow> Backend \<Rightarrow> Circuit \<Rightarrow> Hamiltonian \<Rightarrow> bool \<Rightarrow> (error + complex) \<times> Backend" where
  "snapshot_expectation_value env b circuit hamiltonian valid_check =
     (case (if valid_check then check_all_circuits env b [circuit] else Inr ()) of
        Inl err \<Rightarrow> (Inl err, b)
      | Inr _ \<Rightarrow>
          (case contiguous_from 0 (qubits circuit) of
             Inl err \<Rightarrow> (Inl err, b)
           | Inr False \<Rightarrow> (Inl ValueError, b)
           | Inr True \<Rightarrow>
               (let qc = \<lparr> tk_circuit = circuit, replace_implicit_swaps = False,
                           saved = None, transpiled = False \<rparr>
                in (Inr (snap env qc hamiltonian),
                    b\<lparr> run_calls := Suc (run_calls b),
                       result_calls := Suc (result_calls b) \<rparr>))))"

text \<open>\<open>_sparse_to_zx_tup\<close>: two arrays of \<open>n_qubits\<close> booleans; writing at an index outside
  them is an \<open>IndexError\<close>.\<close>

fun sparse_to_zx_loop ::
  "(Qubit \<times> Pauli) list \<Rightarrow> bool list \<Rightarrow> bool list \<Rightarrow> error + (bool list \<times> bool list)" where
  "sparse_to_zx_loop [] z x = Inr (z, x)"
| "sparse_to_zx_loop ((q, p) # items) z x =
     (case default_q_index q of
        Inl err \<Rightarrow> Inl err
      | Inr i \<Rightarrow>
          if i \<ge> length z then Inl IndexError
          else sparse_to_zx_loop items
                 (z[i := (p = Pauli_Z \<or> p = Pauli_Y)]) (x[i := (p = Pauli_X \<or> p = Pauli_Y)]))"

definition sparse_to_zx_tup :: "QubitPauliString \<Rightarrow> nat \<Rightarrow> error + (bool list \<times> bool list)" where
  "sparse_to_zx_tup pauli n = sparse_to_zx_loop pauli (replicate n False) (replicate n False)"

fun pauli_name :: "Pauli \<Rightarrow> string" where
  "pauli_name Pauli_I = ''I''"
| "pauli_name Pauli_X = ''X''"
| "pauli_name Pauli_Y = ''Y''"
| "pauli_name Pauli_Z = ''Z''"

text \<open>\<open>_qubitpauliop_to_sparsepauliop\<close>: one string per entry, the qubits in reversed
  order, \<open>I\<close> where the Pauli string has none for \<open>Qubit(i)\<close>.\<close>

definition qubitpauliop_to_sparsepauliop :: "QubitPauliOperator \<Rightarrow> nat \<Rightarrow> Hamiltonian" where
  "qubitpauliop_to_sparsepauliop operator n =
     SparsePauliOp
       (map (\<lambda>(pauli_string, coeff).
               concat (map (\<lambda>i. pauli_name
                        (case dict_get pauli_string \<lparr> reg_name = ''q'', index = [i] \<rparr> of
                           None \<Rightarrow> Pauli_I | Some p \<Rightarrow> p))
                      (rev [0..<n])))
            operator)
       (map snd operator)"

definition get_pauli_expectation_value ::
  "Env \<Rightarrow> Backend \<Rightarrow> Circuit \<Rightarrow> QubitPauliString \<Rightarrow> bool \<Rightarrow> (error + complex) \<times> Backend" where
  "get_pauli_expectation_value env b state_circuit pauli valid_check =
     (if noise_model b \<noteq> None then (Inl RuntimeError, b)
      else if \<not> supports_expectation b then (Inl NotImplementedError, b)
      else
        (case sparse_to_zx_tup pauli (n_qubits state_circuit) of
           Inl err \<Rightarrow> (Inl err, b)
         | Inr zx \<Rightarrow> snapshot_expectation_value env b state_circuit (qk_Pauli zx) valid_check))"

definition get_operator_expectation_value ::
  "Env \<Rightarrow> Backend \<Rightarrow> Circuit \<Rightarrow> QubitPauliOperator \<Rightarrow> bool \<Rightarrow> (error + complex) \<times> Backend" where
  "get_operator_expectation_value env b state_circuit operator valid_check =
     (if noise_model b \<noteq> None then (Inl RuntimeError, b)
      else if \<not> supports_expectation b then (Inl NotImplementedError, b)
      else snapshot_expectation_value env b state_circuit
             (qubitpauliop_to_sparsepauliop operator (n_qubits state_circuit)) valid_check)"

section \<open>Example inputs\<close>

text \<open>Inputs for the examples: a gate table with two entries, the two simulators, circuits
  on the default register, collaborators that accept every circuit, and the backend that
  \<open>AerBackend()\<close> constructs.\<close>

definition gate_table :: "string \<rightharpoonup> OpType" where
  "gate_table = [''cx'' \<mapsto> CX, ''x'' \<mapsto> OtherOp ''X'']"

definition aer_simulators :: "QiskitAerBackend list" where
  "aer_simulators =
     [\<lparr> qk_name = ''aer_simulator'', basis_gates = [''cx'', ''x''], qk_method = ''automatic'' \<rparr>,
      \<lparr> qk_name = ''aer_simulator_unitary'', basis_gates = [''cx'', ''x''],
        qk_method = ''unitary'' \<rparr>]"

definition circuit_on :: "string \<Rightarrow> nat \<Rightarrow> Circuit" where
  "circuit_on name n =
     \<lparr> circ_name = name, n_qubits = n,
       qubits = map (\<lambda>i. \<lparr> reg_name = ''q'', index = [i] \<rparr>) [0..<n] \<rparr>"

definition quiet_env :: Env where
  "quiet_env = \<lparr> verify = (\<lambda>p c. True), prepare_circuit = (\<lambda>c. (c, ''null'')),
     noisy_circuit = (\<lambda>cp c. c), snap = (\<lambda>qc h. 0) \<rparr>"

definition noiseless_backend :: Backend where
  "noiseless_backend =
     (let qb = \<lparr> qk_name = ''aer_simulator'', basis_gates = [''cx'', ''x''],
                 qk_method = ''automatic'' \<rparr>;
          gs = tket_gate_set_from_qiskit_backend gate_table qb \<union> allowed_special_gates
      in (AerBackend_attributes qb
           ((plain_backend_info ''AerBackend'' ''aer_simulator'' (FullyConnected 40) gs)
              \<lparr> supports_midcircuit_measurement := True, supports_fast_feedforward := True \<rparr>))
         \<lparr> required_predicates := [NoSymbolsPredicate, GateSetPredicate gs] \<rparr>)"

section \<open>Properties\<close>

subsection \<open>Dicts, sets and permutations\<close>

lemma dict_get_Nil: "dict_get [] k = None"
  by (simp add: dict_get_def)

lemma dict_get_set: "dict_get (dict_set k v d) k' = (if k' = k then Some v else dict_get d k')"
  by (induction d) (auto simp: dict_get_def)

lemma keys_dict_set: "set (keys (dict_set k v d)) = insert k (set (keys d))"
  by (induction d) (auto simp: keys_def)

lemma distinct_dict_set: "distinct (keys d) \<Longrightarrow> distinct (keys (dict_set k v d))"
proof (induction d)
  case Nil
  then show ?case by (simp add: keys_def)
next
  case (Cons p d)
  have "set (keys (dict_set k v d)) = insert k (set (keys d))" by (rule keys_dict_set)
  with Cons show ?case by (auto simp: keys_def)
qed

lemma lookup2_dd_update:
  "lookup2 (dd_update k opt v d) k' opt' =
     (if k' = k \<and> opt' = opt then Some v else lookup2 d k' opt')"
  by (simp add: lookup2_def dd_update_def dd_get_def dict_get_set dict_get_Nil split: option.splits)

lemma keys_dd_update: "set (keys (dd_update k opt v d)) = insert k (set (keys d))"
  by (simp add: dd_update_def keys_dict_set)

lemma distinct_dd_update: "distinct (keys d) \<Longrightarrow> distinct (keys (dd_update k opt v d))"
  by (simp add: dd_update_def distinct_dict_set)

lemma set_set_add: "set (set_add x s) = insert x (set s)"
  by (auto simp: set_add_def)

lemma distinct_set_add: "distinct s \<Longrightarrow> distinct (set_add x s)"
  by (auto simp: set_add_def)

lemma set_permutations2:
  assumes "distinct xs"
  shows "set (permutations2 xs) = {(a, b). a \<in> set xs \<and> b \<in> set xs \<and> a \<noteq> b}"
proof (rule set_eqI)
  fix p :: "'a \<times> 'a"
  obtain a b where p: "p = (a, b)" by (cases p)
  have "(a, b) \<in> set (permutations2 xs) \<longleftrightarrow>
        (\<exists>i j. i < length xs \<and> j < length xs \<and> i \<noteq> j \<and> a = xs ! i \<and> b = xs ! j)"
    by (auto simp: permutations2_def image_iff)
  also have "\<dots> \<longleftrightarrow> a \<in> set xs \<and> b \<in> set xs \<and> a \<noteq> b"
    using assms by (auto simp: in_set_conv_nth nth_eq_iff_index_eq)
  finally show "p \<in> set (permutations2 xs) \<longleftrightarrow> p \<in> {(a, b). a \<in> set xs \<and> b \<in> set xs \<and> a \<noteq> b}"
    by (simp add: p)
qed

lemma distinct_permutations2:
  assumes "distinct xs"
  shows "distinct (permutations2 xs)"
proof -
  have "inj_on (\<lambda>(i, j). (xs ! i, xs ! j))
          (set (filter (\<lambda>(i, j). i \<noteq> j) (List.product [0..<length xs] [0..<length xs])))"
    using assms by (auto simp: inj_on_def nth_eq_iff_index_eq)
  then show ?thesis
    by (simp add: permutations2_def distinct_map distinct_product)
qed

lemma card_with_converse:
  assumes "finite (A :: ('a \<times> 'a) set)"
  shows "card A \<le> card (A \<union> A\<inverse>)"
    and "card A < card (A \<union> A\<inverse>) \<longleftrightarrow> (\<exists>p \<in> A. (snd p, fst p) \<notin> A)"
proof -
  from assms have fin: "finite (A \<union> A\<inverse>)" by simp
  show "card A \<le> card (A \<union> A\<inverse>)"
    by (rule card_mono[OF fin]) simp
  show "card A < card (A \<union> A\<inverse>) \<longleftrightarrow> (\<exists>p \<in> A. (snd p, fst p) \<notin> A)"
  proof
    assume less: "card A < card (A \<union> A\<inverse>)"
    show "\<exists>p \<in> A. (snd p, fst p) \<notin> A"
    proof (rule ccontr)
      assume "\<not> (\<exists>p \<in> A. (snd p, fst p) \<notin> A)"
      then have "A\<inverse> \<subseteq> A" by force
      then have "A \<union> A\<inverse> = A" by blast
      with less show False by simp
    qed
  next
    assume "\<exists>p \<in> A. (snd p, fst p) \<notin> A"
    then obtain a b where "(a, b) \<in> A" "(b, a) \<notin> A" by force
    then have "(b, a) \<in> A \<union> A\<inverse>" "(b, a) \<notin> A" by auto
    then have "A \<subset> A \<union> A\<inverse>" by blast
    then show "card A < card (A \<union> A\<inverse>)"
      by (rule psubset_card_mono[OF fin])
  qed
qed

subsection \<open>The loop over the error events\<close>

lemma process_errors_append:
  "process_errors tbl st (xs @ ys) =
     (case process_errors tbl st xs of Inl err \<Rightarrow> Inl err | Inr st' \<Rightarrow> process_errors tbl st' ys)"
  by (induction xs arbitrary: st) (auto split: sum.splits)

text \<open>The shapes of a successful step.\<close>

lemma process_error_cases:
  assumes "process_error tbl st e = Inr st'"
  obtains
    (single) name q gr f pr where "operations e = [name]" "gate_qubits e = Some ([q] # gr)"
      "probabilities e = f # pr" "single_qubit_error tbl st e name q f = Inr st'"
  | (double) name q0 q1 gr f pr where "operations e = [name]" "gate_qubits e = Some ([q0, q1] # gr)"
      "probabilities e = f # pr" "two_qubit_error tbl st e name q0 q1 f = Inr st'"
  | (skip) "length (first_qubits e) \<noteq> 1" "length (first_qubits e) \<noteq> 2" "st' = st"
  using assms
  by (auto simp: process_error_def first_qubits_def split: if_splits option.splits list.splits)

lemma single_link_unchanged:
  "single_qubit_error tbl st e name q f = Inr st' \<Longrightarrow>
     st_link_errors st' = st_link_errors st \<and> coupling_map st' = coupling_map st \<and>
     qubits_with_link_errors st' = qubits_with_link_errors st \<and>
     qubits_set st' = set_add q (qubits_set st)"
  by (auto simp: single_qubit_error_def Let_def split: option.splits if_splits sum.splits)

lemma two_qubit_effect:
  assumes "two_qubit_error tbl st e name q0 q1 g = Inr st'"
  shows "\<exists>k f. tbl name = Some k \<and> g = PFloat f \<and>
    st_link_errors st' =
       dd_update (q1, q0) k (1 - f ^ 2) (dd_update (q0, q1) k (1 - f) (st_link_errors st)) \<and>
    coupling_map st' = coupling_map st @ [(q0, q1)] \<and>
    qubits_with_link_errors st' = set_add q1 (set_add q0 (qubits_with_link_errors st)) \<and>
    qubits_set st' = qubits_set st \<and>
    st_node_errors st' = st_node_errors st \<and> st_readout_errors st' = st_readout_errors st"
proof (cases g)
  case (PFloat f)
  with assms show ?thesis
    by (cases "tbl name") (auto simp: two_qubit_error_def)
next
  case (PList x)
  with assms show ?thesis
    by (cases "tbl name") (auto simp: two_qubit_error_def)
qed

lemma touches_swap: "touches tbl e (a, b) k = touches tbl e (b, a) k"
  by (auto simp: touches_def)

lemma step_link_preserved:
  assumes "process_error tbl st e = Inr st'" and "\<not> touches tbl e p k"
  shows "lookup2 (st_link_errors st') p k = lookup2 (st_link_errors st) p k"
  using assms(1)
proof (cases rule: process_error_cases)
  case (single name q gr f pr)
  then show ?thesis by (simp add: single_link_unchanged)
next
  case (double name q0 q1 gr g pr)
  from two_qubit_effect[OF double(4)] obtain k' f where *: "tbl name = Some k'"
    "st_link_errors st' =
       dd_update (q1, q0) k' (1 - f ^ 2) (dd_update (q0, q1) k' (1 - f) (st_link_errors st))"
    by blast
  have fq: "first_qubits e = [q0, q1]"
    using double(2) by (simp add: first_qubits_def)
  have "touches tbl e p k \<longleftrightarrow> (p = (q0, q1) \<or> p = (q1, q0)) \<and> k' = k"
    unfolding touches_def fq double(1) using *(1) by simp
  with assms(2) have neg: "(p = (q0, q1) \<and> k = k') = False" "(p = (q1, q0) \<and> k = k') = False"
    by blast+
  show ?thesis
    unfolding *(2) lookup2_dd_update neg by (rule if_False [THEN trans]) (rule if_False)
next
  case skip
  then show ?thesis by simp
qed

lemma steps_link_preserved:
  "process_errors tbl st es = Inr st' \<Longrightarrow> \<forall>e \<in> set es. \<not> touches tbl e p k \<Longrightarrow>
     lookup2 (st_link_errors st') p k = lookup2 (st_link_errors st) p k"
proof (induction es arbitrary: st)
  case Nil
  then show ?case by simp
next
  case (Cons e es)
  from Cons.prems(1) obtain st1 where s1: "process_error tbl st e = Inr st1"
    and s2: "process_errors tbl st1 es = Inr st'"
    by (auto split: sum.splits)
  from Cons.IH[OF s2] Cons.prems(2) step_link_preserved[OF s1] show ?case by simp
qed

lemma summary_after_Nil: "summary_after s [] = s"
  by (simp add: summary_after_def two_qubit_pairs_def single_targets_def linked_of_def)

lemma summary_after_Cons: "summary_after s (e # es) = summary_after (summary_after s [e]) es"
  by (auto simp: summary_after_def two_qubit_pairs_def single_targets_def linked_of_def)

lemma step_summary:
  assumes "process_error tbl st e = Inr st'"
  shows "summarise st' = summary_after (summarise st) [e]"
  using assms
proof (cases rule: process_error_cases)
  case (single name q gr f pr)
  have fq: "first_qubits e = [q]"
    using single(2) by (simp add: first_qubits_def)
  from single_link_unchanged[OF single(4)] show ?thesis
    by (simp add: summarise_def summary_after_def two_qubit_pairs_def single_targets_def fq
        linked_of_def set_set_add)
next
  case (double name q0 q1 gr g pr)
  have fq: "first_qubits e = [q0, q1]"
    using double(2) by (simp add: first_qubits_def)
  from two_qubit_effect[OF double(4)] obtain k' f where *:
    "st_link_errors st' =
       dd_update (q1, q0) k' (1 - f ^ 2) (dd_update (q0, q1) k' (1 - f) (st_link_errors st))"
    "coupling_map st' = coupling_map st @ [(q0, q1)]"
    "qubits_with_link_errors st' = set_add q1 (set_add q0 (qubits_with_link_errors st))"
    "qubits_set st' = qubits_set st"
    by blast
  show ?thesis
    unfolding summarise_def summary_after_def *
    by (auto simp: two_qubit_pairs_def single_targets_def fq linked_of_def set_set_add keys_dd_update)
next
  case skip
  then show ?thesis
    by (simp add: summarise_def summary_after_def two_qubit_pairs_def single_targets_def linked_of_def)
qed

lemma steps_summary:
  "process_errors tbl st es = Inr st' \<Longrightarrow> summarise st' = summary_after (summarise st) es"
proof (induction es arbitrary: st)
  case Nil
  then show ?case by (simp add: summary_after_Nil)
next
  case (Cons e es)
  from Cons.prems obtain st1 where s1: "process_error tbl st e = Inr st1"
    and s2: "process_errors tbl st1 es = Inr st'"
    by (auto split: sum.splits)
  from Cons.IH[OF s2] step_summary[OF s1] show ?case
    by (simp add: summary_after_Cons[of _ e es])
qed

lemma step_wf:
  assumes "process_error tbl st e = Inr st'" and "wf_state st"
  shows "wf_state st'"
  using assms(1)
proof (cases rule: process_error_cases)
  case (single name q gr f pr)
  from single_link_unchanged[OF single(4)] assms(2) show ?thesis
    by (simp add: wf_state_def distinct_set_add)
next
  case (double name q0 q1 gr g pr)
  from two_qubit_effect[OF double(4)] obtain k' f where *:
    "st_link_errors st' =
       dd_update (q1, q0) k' (1 - f ^ 2) (dd_update (q0, q1) k' (1 - f) (st_link_errors st))"
    "qubits_with_link_errors st' = set_add q1 (set_add q0 (qubits_with_link_errors st))"
    "qubits_set st' = qubits_set st"
    by blast
  from assms(2) show ?thesis
    unfolding wf_state_def * by (simp add: distinct_set_add distinct_dd_update)
next
  case skip
  with assms(2) show ?thesis by simp
qed

lemma steps_wf:
  "process_errors tbl st es = Inr st' \<Longrightarrow> wf_state st \<Longrightarrow> wf_state st'"
proof (induction es arbitrary: st)
  case Nil
  then show ?case by simp
next
  case (Cons e es)
  from Cons.prems(1) obtain st1 where s1: "process_error tbl st e = Inr st1"
    and s2: "process_errors tbl st1 es = Inr st'"
    by (auto split: sum.splits)
  from Cons.IH[OF s2] step_wf[OF s1 Cons.prems(2)] show ?case .
qed

lemma wf_init: "wf_state init_state"
  by (simp add: wf_state_def init_state_def keys_def)

lemma summarise_init:
  "summarise init_state = \<lparr> s_coupling = [], s_qubits = {}, s_linked = {}, s_keys = {} \<rparr>"
  by (simp add: summarise_def init_state_def keys_def)

lemma run_summary:
  assumes "process_errors tbl init_state evs = Inr st"
  shows "coupling_map st = two_qubit_pairs evs"
    and "set (qubits_set st) = set (single_targets evs)"
    and "set (qubits_with_link_errors st) = linked_of (two_qubit_pairs evs)"
    and "set (keys (st_link_errors st)) = set (two_qubit_pairs evs) \<union> (set (two_qubit_pairs evs))\<inverse>"
    and "set (free_qubits st) = free_set evs"
    and "distinct (free_qubits st)"
    and "distinct (keys (st_link_errors st))"
proof -
  have s: "summarise st = summary_after \<lparr> s_coupling = [], s_qubits = {}, s_linked = {}, s_keys = {} \<rparr> evs"
    using steps_summary[OF assms] by (simp add: summarise_init)
  from arg_cong[OF s, of s_coupling] show c: "coupling_map st = two_qubit_pairs evs"
    by (simp add: summarise_def summary_after_def)
  from arg_cong[OF s, of s_qubits] show q: "set (qubits_set st) = set (single_targets evs)"
    by (simp add: summarise_def summary_after_def)
  from arg_cong[OF s, of s_linked]
  show l: "set (qubits_with_link_errors st) = linked_of (two_qubit_pairs evs)"
    by (simp add: summarise_def summary_after_def)
  from arg_cong[OF s, of s_keys]
  show "set (keys (st_link_errors st)) = set (two_qubit_pairs evs) \<union> (set (two_qubit_pairs evs))\<inverse>"
    by (simp add: summarise_def summary_after_def)
  show "set (free_qubits st) = free_set evs"
    by (auto simp: free_qubits_def set_diff_def free_set_def q l)
  have wf: "wf_state st" using steps_wf[OF assms wf_init] .
  then show "distinct (free_qubits st)"
    by (simp add: free_qubits_def set_diff_def wf_state_def)
  from wf show "distinct (keys (st_link_errors st))"
    by (simp add: wf_state_def)
qed

lemma only_single:
  assumes "list_all (\<lambda>e. length (first_qubits e) = 1) evs"
  shows "two_qubit_pairs evs = []" and "single_targets evs = concat (map first_qubits evs)"
proof -
  from assms have "filter (\<lambda>e. length (first_qubits e) = 2) evs = []"
    by (induction evs) auto
  then show "two_qubit_pairs evs = []" by (simp add: two_qubit_pairs_def)
  from assms have "filter (\<lambda>e. length (first_qubits e) = 1) evs = evs"
    by (induction evs) auto
  then show "single_targets evs = concat (map first_qubits evs)" by (simp add: single_targets_def)
qed

lemma malformed_step:
  assumes "malformed e"
  shows "process_error tbl st e =
           Inl (RuntimeWarning (if length (operations e) > 1 then MultipleGates else AllQubitMethod))"
  using assms by (auto simp: malformed_def process_error_def)

lemma malformed_fails:
  "e \<in> set es \<Longrightarrow> malformed e \<Longrightarrow> \<exists>err. process_errors tbl st es = Inl err"
proof (induction es arbitrary: st)
  case Nil
  then show ?case by simp
next
  case (Cons x es)
  show ?case
  proof (cases "process_error tbl st x")
    case (Inl err)
    then show ?thesis by simp
  next
    case (Inr st1)
    with Cons.prems have "x \<noteq> e"
      by (auto simp: malformed_step)
    with Cons.prems have "e \<in> set es" by simp
    from Cons.IH[OF this Cons.prems(2)] Inr show ?thesis by simp
  qed
qed

subsection \<open>The characterisation\<close>

lemma process_noise_model_Inr:
  assumes "process_noise_model tbl nm gs = Inr c"
  shows "\<exists>st. process_errors tbl init_state (errors_of nm) = Inr st \<and> finish st = Inr c \<and> CX \<in> gs
           \<and> dict_get nm ''errors'' \<noteq> None"
  using assms
  by (auto simp: process_noise_model_def errors_of_def split: if_splits option.splits sum.splits)

lemma finish_Inr:
  assumes "finish st = Inr c"
  shows "edge_errors c = Some (st_link_errors st)"
    and "architecture c = Architecture (complete_coupling st)"
    and "averaged_edge_errors c = Some (map (\<lambda>(k, v). (k, average v)) (st_link_errors st))"
  using assms by (auto simp: finish_def split: sum.splits)

lemma averaged_edge_error_is_mean:
  assumes "finish st = Inr c"
  shows "averaged_edge_error c p = map_option average (dict_get (st_link_errors st) p)"
proof -
  have "map_of (map (\<lambda>(k, v). (k, average v)) d) p = map_option average (map_of d p)" for d :: "(int \<times> int, (OpType, real) dict) dict"
    by (induction d) auto
  then show ?thesis
    by (simp add: averaged_edge_error_def finish_Inr(3)[OF assms] dict_get_def)
qed

lemma set_complete_coupling:
  "set (complete_coupling st) =
     set (coupling_map st)
     \<union> {(f, l) | f l. f \<in> set (free_qubits st) \<and> l \<in> set (qubits_with_link_errors st)}
     \<union> {(l, f) | f l. f \<in> set (free_qubits st) \<and> l \<in> set (qubits_with_link_errors st)}
     \<union> set (permutations2 (free_qubits st))"
  by (auto simp: complete_coupling_def)

lemma completion_mentions_free:
  assumes "p \<in> set (concat (map (\<lambda>q. concat (map (\<lambda>lq. [(q, lq), (lq, q)]) ls)) fs) @ permutations2 fs)"
    and "distinct fs"
  shows "fst p \<in> set fs \<or> snd p \<in> set fs"
proof -
  from assms(1) consider
    (a) "p \<in> set (concat (map (\<lambda>q. concat (map (\<lambda>lq. [(q, lq), (lq, q)]) ls)) fs))"
    | (b) "p \<in> set (permutations2 fs)"
    by auto
  then show ?thesis
  proof cases
    case a
    then show ?thesis by auto
  next
    case b
    then show ?thesis
      unfolding set_permutations2[OF assms(2)] by auto
  qed
qed

lemmas run_eval = process_noise_model_def dict_get_def is_q_or_ro_def qerror_on_def process_error_def
  two_qubit_error_def single_qubit_error_def init_state_def dd_update_def dd_get_def dd_append_def
  set_add_def finish_def complete_coupling_def free_qubits_def set_diff_def permutations2_def
  average_def result_of_def

subsection \<open>Edge errors of two-qubit events\<close>

text \<open>
  Claim C2, as stated, fails: with an error on \<open>(0, 1)\<close> of fidelity \<open>0.99\<close> followed by
  an error on \<open>(1, 0)\<close> of fidelity \<open>0.98\<close> for the same gate, the entry of \<open>(0, 1)\<close> is
  \<open>1 - 0.98\<^sup>2\<close>, written by the second event, and not \<open>1 - 0.99\<close>.
\<close>

theorem edge_error_overwritten_by_reverse_event:
  "map_option edge_errors (result_of (process_noise_model [''cx'' \<mapsto> CX]
       [(''errors'', [qerror_on ''cx'' [0, 1] (99 / 100), qerror_on ''cx'' [1, 0] (49 / 50)])] {CX}))
     = Some (Some [((0, 1), [(CX, 99 / 2500)]), ((1, 0), [(CX, 1 / 50)])])
   \<and> (99 / 2500 :: real) \<noteq> 1 - 99 / 100"
  by (simp add: run_eval power2_eq_square)

text \<open>
  Claim C2, amended (the last writer wins). Let a two-qubit error on \<open>(q0, q1)\<close> for the
  operation kind \<open>k\<close> have first probability \<open>f\<close>, and let no later two-qubit error of kind
  \<open>k\<close> be on \<open>(q0, q1)\<close> or \<open>(q1, q0)\<close>. Then the characterisation records \<open>1 - f\<^sup>2\<close> for
  \<open>(q1, q0)\<close> and, when \<open>q0 \<noteq> q1\<close>, \<open>1 - f\<close> for \<open>(q0, q1)\<close>, under \<open>k\<close>. Floats are
  real numbers here.
\<close>

theorem two_qubit_edge_errors_last_writer:
  assumes run: "process_noise_model tbl nm gs = Inr c"
    and evs: "errors_of nm = pre @ e # post"
    and gq: "gate_qubits e = Some ([q0, q1] # gr)"
    and ops: "operations e = name # ns"
    and tbl: "tbl name = Some k"
    and pr: "probabilities e = PFloat f # ps"
    and last: "\<forall>e' \<in> set post. \<not> touches tbl e' (q0, q1) k"
  shows "(q0 \<noteq> q1 \<longrightarrow> edge_error c (q0, q1) k = Some (1 - f)) \<and>
         edge_error c (q1, q0) k = Some (1 - f ^ 2)"
proof -
  from process_noise_model_Inr[OF run] obtain st where
    st: "process_errors tbl init_state (errors_of nm) = Inr st" and fin: "finish st = Inr c"
    by blast
  from st evs obtain st0 st1 where
    s0: "process_errors tbl init_state pre = Inr st0" and
    s1: "process_error tbl st0 e = Inr st1" and
    s2: "process_errors tbl st1 post = Inr st"
    by (auto simp: process_errors_append split: sum.splits)
  from s1 gq ops pr have "two_qubit_error tbl st0 e name q0 q1 (PFloat f) = Inr st1"
    by (auto simp: process_error_def split: if_splits)
  from two_qubit_effect[OF this] tbl have l1: "st_link_errors st1 =
       dd_update (q1, q0) k (1 - f ^ 2) (dd_update (q0, q1) k (1 - f) (st_link_errors st0))"
    by auto
  have a: "lookup2 (st_link_errors st1) (q1, q0) k = Some (1 - f ^ 2)"
    unfolding l1 lookup2_dd_update by simp
  have b: "q0 \<noteq> q1 \<Longrightarrow> lookup2 (st_link_errors st1) (q0, q1) k = Some (1 - f)"
    unfolding l1 lookup2_dd_update by simp
  from last have last': "\<forall>e' \<in> set post. \<not> touches tbl e' (q1, q0) k"
    by (simp add: touches_swap)
  have "lookup2 (st_link_errors st) (q1, q0) k = Some (1 - f ^ 2)"
    using steps_link_preserved[OF s2 last'] a by simp
  moreover have "q0 \<noteq> q1 \<Longrightarrow> lookup2 (st_link_errors st) (q0, q1) k = Some (1 - f)"
    using steps_link_preserved[OF s2 last] b by simp
  ultimately show ?thesis
    by (simp add: edge_error_def finish_Inr(1)[OF fin])
qed

text \<open>
  The example of the claim: one error between the qubits 0 and 1 with fidelity \<open>0.99\<close>
  gives \<open>0.01\<close> for \<open>(0, 1)\<close> and \<open>0.0199\<close> for \<open>(1, 0)\<close>, also as averages.
\<close>

theorem two_qubit_edge_errors_witness:
  "\<exists>c. process_noise_model [''cx'' \<mapsto> CX] [(''errors'', [qerror_on ''cx'' [0, 1] (99 / 100)])] {CX} = Inr c
     \<and> edge_error c (0, 1) CX = Some (1 / 100) \<and> edge_error c (1, 0) CX = Some (199 / 10000)
     \<and> averaged_edge_error c (0, 1) = Some (1 / 100)
     \<and> averaged_edge_error c (1, 0) = Some (199 / 10000)"
proof -
  let ?nm = "[(''errors'', [qerror_on ''cx'' [0, 1] (99 / 100)])]"
  let ?tbl = "[''cx'' \<mapsto> CX]"
  obtain c where run: "process_noise_model ?tbl ?nm {CX} = Inr c"
    and avg: "averaged_edge_errors c = Some [((0, 1), 1 / 100), ((1, 0), 199 / 10000)]"
    by (simp add: run_eval power2_eq_square)
  have evs: "errors_of ?nm = [] @ qerror_on ''cx'' [0, 1] (99 / 100) # []"
    by (simp add: errors_of_def dict_get_def is_q_or_ro_def qerror_on_def)
  have "(0 \<noteq> (1::int) \<longrightarrow> edge_error c (0, 1) CX = Some (1 - 99 / 100)) \<and>
         edge_error c (1, 0) CX = Some (1 - (99 / 100) ^ 2)"
    by (rule two_qubit_edge_errors_last_writer[OF run evs, where gr = "[]" and name = "''cx''"
          and ns = "[]" and ps = "[PFloat (1 - 99 / 100)]"])
       (simp_all add: qerror_on_def)
  then have "edge_error c (0, 1) CX = Some (1 / 100)" "edge_error c (1, 0) CX = Some (199 / 10000)"
    by (simp_all add: power2_eq_square)
  moreover have "averaged_edge_error c (0, 1) = Some (1 / 100)"
    "averaged_edge_error c (1, 0) = Some (199 / 10000)"
    by (simp_all add: averaged_edge_error_def avg dict_get_def)
  ultimately show ?thesis using run by blast
qed

subsection \<open>Free qubits and the coupling list\<close>

text \<open>
  Claim C3, as stated, fails: the qubits 0, 1 and 2 occur in an error event (on three qubits)
  and in no two-qubit event, and 3 and 4 are link-constrained, yet the coupling list is
  \<open>[(3, 4)]\<close>: it has no pair with the qubits 0, 1 or 2.
\<close>

theorem three_qubit_targets_not_free:
  "map_option coupling_of (result_of (process_noise_model [''cx'' \<mapsto> CX]
       [(''errors'', [qerror_on ''ccx'' [0, 1, 2] (99 / 100), qerror_on ''cx'' [3, 4] (99 / 100)])]
       {CX}))
     = Some [(3, 4)]"
  by (simp add: run_eval coupling_of_def)

text \<open>
  Claim C3, amended (free-qubit completion). A free qubit is the target of some single-qubit
  error event and of no two-qubit error event. The coupling list consists of the pairs of the
  two-qubit errors, of \<open>(f, l)\<close> and \<open>(l, f)\<close> for every free \<open>f\<close> and every link-constrained
  \<open>l\<close>, and of every ordered pair of distinct free qubits. Hence, when every error is on a
  single qubit, the coupling list holds exactly the ordered pairs of distinct qubits of the
  events, each once.
\<close>

theorem free_qubit_completion:
  assumes run: "process_noise_model tbl nm gs = Inr c"
  shows "set (coupling_of c) =
           set (two_qubit_pairs (errors_of nm))
           \<union> {(f, l) | f l. f \<in> free_set (errors_of nm) \<and> l \<in> linked_of (two_qubit_pairs (errors_of nm))}
           \<union> {(l, f) | f l. f \<in> free_set (errors_of nm) \<and> l \<in> linked_of (two_qubit_pairs (errors_of nm))}
           \<union> {(a, b). a \<in> free_set (errors_of nm) \<and> b \<in> free_set (errors_of nm) \<and> a \<noteq> b}
       \<and> (list_all (\<lambda>e. length (first_qubits e) = 1) (errors_of nm) \<longrightarrow>
           distinct (coupling_of c) \<and>
           set (coupling_of c) =
             {(a, b). a \<in> set (concat (map first_qubits (errors_of nm))) \<and>
                      b \<in> set (concat (map first_qubits (errors_of nm))) \<and> a \<noteq> b})"
proof -
  from process_noise_model_Inr[OF run] obtain st where
    st: "process_errors tbl init_state (errors_of nm) = Inr st" and fin: "finish st = Inr c"
    by blast
  note rs = run_summary[OF st]
  have co: "coupling_of c = complete_coupling st"
    by (simp add: coupling_of_def finish_Inr(2)[OF fin])
  have general: "set (coupling_of c) =
           set (two_qubit_pairs (errors_of nm))
           \<union> {(f, l) | f l. f \<in> free_set (errors_of nm) \<and> l \<in> linked_of (two_qubit_pairs (errors_of nm))}
           \<union> {(l, f) | f l. f \<in> free_set (errors_of nm) \<and> l \<in> linked_of (two_qubit_pairs (errors_of nm))}
           \<union> {(a, b). a \<in> free_set (errors_of nm) \<and> b \<in> free_set (errors_of nm) \<and> a \<noteq> b}"
    unfolding co set_complete_coupling set_permutations2[OF rs(6)] rs(1) rs(3) rs(5) ..
  have single_only: "list_all (\<lambda>e. length (first_qubits e) = 1) (errors_of nm) \<longrightarrow>
           distinct (coupling_of c) \<and>
           set (coupling_of c) =
             {(a, b). a \<in> set (concat (map first_qubits (errors_of nm))) \<and>
                      b \<in> set (concat (map first_qubits (errors_of nm))) \<and> a \<noteq> b}"
  proof
    assume single: "list_all (\<lambda>e. length (first_qubits e) = 1) (errors_of nm)"
    note os = only_single[OF single]
    have l0: "qubits_with_link_errors st = []"
      using rs(3) by (simp add: os(1) linked_of_def)
    have "complete_coupling st = permutations2 (free_qubits st)"
      by (simp add: complete_coupling_def rs(1) os(1) l0)
    then have d: "distinct (coupling_of c)"
      by (simp add: co distinct_permutations2[OF rs(6)])
    have "free_set (errors_of nm) = set (concat (map first_qubits (errors_of nm)))"
      by (simp add: free_set_def os linked_of_def)
    with general have "set (coupling_of c) =
             {(a, b). a \<in> set (concat (map first_qubits (errors_of nm))) \<and>
                      b \<in> set (concat (map first_qubits (errors_of nm))) \<and> a \<noteq> b}"
      by (simp add: os(1) linked_of_def)
    with d show "distinct (coupling_of c) \<and>
           set (coupling_of c) =
             {(a, b). a \<in> set (concat (map first_qubits (errors_of nm))) \<and>
                      b \<in> set (concat (map first_qubits (errors_of nm))) \<and> a \<noteq> b}" ..
  qed
  from general single_only show ?thesis by (rule conjI)
qed

text \<open>
  Two instances: errors on the single qubits 0, 1, 2, and an error on the pair \<open>(0, 1)\<close>
  with one on the single qubit 2.
\<close>

theorem free_qubit_completion_witness:
  "(\<exists>c. process_noise_model [''x'' \<mapsto> OtherOp ''X'']
         [(''errors'', [qerror_on ''x'' [0] (999 / 1000), qerror_on ''x'' [1] (998 / 1000),
                        qerror_on ''x'' [2] (997 / 1000)])] {CX} = Inr c
     \<and> distinct (coupling_of c)
     \<and> set (coupling_of c) = {(0, 1), (0, 2), (1, 0), (1, 2), (2, 0), (2, 1)})
   \<and> (\<exists>c. process_noise_model [''cx'' \<mapsto> CX, ''x'' \<mapsto> OtherOp ''X'']
         [(''errors'', [qerror_on ''cx'' [0, 1] (99 / 100), qerror_on ''x'' [2] (999 / 1000)])]
         {CX} = Inr c
     \<and> set (coupling_of c) = {(0, 1), (2, 0), (0, 2), (2, 1), (1, 2)})"
proof
  let ?nm = "[(''errors'', [qerror_on ''x'' [0] (999 / 1000), qerror_on ''x'' [1] (998 / 1000),
                        qerror_on ''x'' [2] (997 / 1000)])]"
  let ?tbl = "[''x'' \<mapsto> OtherOp ''X'']"
  obtain c where run: "process_noise_model ?tbl ?nm {CX} = Inr c"
    by (simp add: run_eval)
  have evs: "errors_of ?nm = [qerror_on ''x'' [0] (999 / 1000), qerror_on ''x'' [1] (998 / 1000),
                        qerror_on ''x'' [2] (997 / 1000)]"
    by (simp add: errors_of_def dict_get_def is_q_or_ro_def qerror_on_def)
  have single: "list_all (\<lambda>e. length (first_qubits e) = 1) (errors_of ?nm)"
    unfolding evs by (simp add: first_qubits_def qerror_on_def)
  have q: "set (concat (map first_qubits (errors_of ?nm))) = {0, 1, 2}"
    unfolding evs by (simp add: first_qubits_def qerror_on_def)
  from free_qubit_completion[OF run] single
  have "distinct (coupling_of c) \<and>
        set (coupling_of c) = {(a, b). a \<in> {0, 1, 2} \<and> b \<in> {0, 1, 2} \<and> a \<noteq> b}"
    unfolding q by blast
  moreover have "{(a, b). a \<in> {0, 1, 2} \<and> b \<in> {0, 1, 2} \<and> a \<noteq> b}
      = {(0, 1), (0, 2), (1, 0), (1, 2), (2, 0), (2, 1 :: int)}"
    by auto
  ultimately show "\<exists>c. process_noise_model ?tbl ?nm {CX} = Inr c
     \<and> distinct (coupling_of c)
     \<and> set (coupling_of c) = {(0, 1), (0, 2), (1, 0), (1, 2), (2, 0), (2, 1)}"
    using run by simp
next
  let ?nm = "[(''errors'', [qerror_on ''cx'' [0, 1] (99 / 100), qerror_on ''x'' [2] (999 / 1000)])]"
  let ?tbl = "[''cx'' \<mapsto> CX, ''x'' \<mapsto> OtherOp ''X'']"
  obtain c where run: "process_noise_model ?tbl ?nm {CX} = Inr c"
    by (simp add: run_eval)
  have evs: "errors_of ?nm = [qerror_on ''cx'' [0, 1] (99 / 100), qerror_on ''x'' [2] (999 / 1000)]"
    by (simp add: errors_of_def dict_get_def is_q_or_ro_def qerror_on_def)
  have P: "two_qubit_pairs (errors_of ?nm) = [(0, 1)]"
    unfolding evs by (simp add: two_qubit_pairs_def first_qubits_def qerror_on_def)
  have F: "free_set (errors_of ?nm) = {2}"
    unfolding free_set_def P unfolding evs
    by (simp add: single_targets_def first_qubits_def qerror_on_def linked_of_def)
  have L: "linked_of [(0, 1 :: int)] = {0, 1}"
    by (auto simp: linked_of_def)
  from free_qubit_completion[OF run]
  have "set (coupling_of c) =
           {(0, 1)} \<union> {(f, l) | f l. f \<in> {2} \<and> l \<in> {0, 1}}
           \<union> {(l, f) | f l. f \<in> {2} \<and> l \<in> {0, 1}}
           \<union> {(a, b). a \<in> {2} \<and> b \<in> {2 :: int} \<and> a \<noteq> b}"
    unfolding P F L by simp
  also have "\<dots> = {(0, 1), (2, 0), (0, 2), (2, 1), (1, 2)}"
    by auto
  finally show "\<exists>c. process_noise_model ?tbl ?nm {CX} = Inr c
     \<and> set (coupling_of c) = {(0, 1), (2, 0), (0, 2), (2, 1), (1, 2)}"
    using run by blast
qed

subsection \<open>Events on more than two qubits\<close>

text \<open>
  Claim C4, as stated, fails: a noise model whose only error is on three qubits is
  characterised without any failure; the result has no entries at all.
\<close>

theorem three_qubit_error_accepted:
  "process_noise_model Map.empty [(''errors'', [qerror_on ''ccx'' [0, 1, 2] (99 / 100)])] {CX}
     = Inr \<lparr>architecture = Architecture [], node_errors = Some [], edge_errors = Some [],
        readout_errors = Some [], averaged_node_errors = Some [], averaged_edge_errors = Some [],
        averaged_readout_errors = Some [], generic_q_errors = Some ([], [])\<rparr>"
  by (simp add: run_eval)

text \<open>
  Claim C4, amended (other arities are skipped). An event with one operation name, explicit
  target qubits and a first probability, whose first target tuple has neither one nor two
  qubits, changes nothing: the loop goes on to the next event with the same maps, qubit
  sets and coupling list.
\<close>

theorem unsupported_arity_skipped:
  assumes "length (operations e) = 1" and "gate_qubits e = Some (qs # gr)"
    and "probabilities e \<noteq> []" and "length qs \<noteq> 1" and "length qs \<noteq> 2"
  shows "process_error tbl st e = Inr st \<and>
         process_errors tbl st (e # es) = process_errors tbl st es"
proof -
  from assms have "process_error tbl st e = Inr st"
    by (auto simp: process_error_def split: list.splits)
  then show ?thesis by simp
qed

text \<open>
  An error on the three qubits 0, 1, 2 leaves the initial state as it is.
\<close>

theorem unsupported_arity_skipped_witness:
  "process_error Map.empty init_state (qerror_on ''ccx'' [0, 1, 2] (99 / 100)) = Inr init_state \<and>
   process_errors Map.empty init_state
       [qerror_on ''ccx'' [0, 1, 2] (99 / 100), qerror_on ''ccx'' [3, 4, 5] (99 / 100)]
     = process_errors Map.empty init_state [qerror_on ''ccx'' [3, 4, 5] (99 / 100)]"
  by (rule unsupported_arity_skipped[where qs = "[0, 1, 2]" and gr = "[]"])
     (simp_all add: qerror_on_def)

subsection \<open>Malformed events\<close>

text \<open>
  Claim C5, as stated, fails: the second event has no \<open>gate_qubits\<close>, but the first one
  names a gate that the table \<open>_gate_str_2_optype\<close> does not have, and the characterisation
  ends with that \<open>KeyError\<close>, not with the \<open>RuntimeWarning\<close>.
\<close>

theorem earlier_failure_masks_malformed_event:
  "process_noise_model [''cx'' \<mapsto> CX]
      [(''errors'', [qerror_on ''not_a_gate'' [0] (99 / 100), all_qubit_error ''cx'' (99 / 100)])] {CX}
     = Inl KeyError"
  by (simp add: run_eval all_qubit_error_def)

text \<open>
  Claim C5, amended (malformed events are fatal). If some \<open>qerror\<close> or \<open>roerror\<close> event
  names more than one operation or has no \<open>gate_qubits\<close>, the characterisation fails and
  returns no characterisation. The failure is the \<open>RuntimeWarning\<close> of that event whenever
  \<open>CX\<close> is in the gate set and the events before it are processed without error.
\<close>

theorem malformed_event_fails:
  assumes "e \<in> set (errors_of nm)" and "malformed e"
  shows "(\<exists>err. process_noise_model tbl nm gs = Inl err) \<and>
         (\<forall>pre post st. CX \<in> gs \<and> errors_of nm = pre @ e # post \<and>
              process_errors tbl init_state pre = Inr st \<longrightarrow>
            process_noise_model tbl nm gs =
              Inl (RuntimeWarning (if length (operations e) > 1 then MultipleGates else AllQubitMethod)))"
proof
  have "dict_get nm ''errors'' \<noteq> None"
    using assms(1) by (cases "dict_get nm ''errors''") (simp_all add: errors_of_def)
  then obtain all_errors where d: "dict_get nm ''errors'' = Some all_errors"
    by blast
  then have ev: "errors_of nm = filter is_q_or_ro all_errors"
    by (simp add: errors_of_def)
  from malformed_fails[OF assms] obtain err where
    "process_errors tbl init_state (errors_of nm) = Inl err" by blast
  then show "\<exists>err. process_noise_model tbl nm gs = Inl err"
    by (simp add: process_noise_model_def d ev[symmetric])
  show "\<forall>pre post st. CX \<in> gs \<and> errors_of nm = pre @ e # post \<and>
              process_errors tbl init_state pre = Inr st \<longrightarrow>
            process_noise_model tbl nm gs =
              Inl (RuntimeWarning (if length (operations e) > 1 then MultipleGates else AllQubitMethod))"
  proof (intro allI impI)
    fix pre post st
    assume h: "CX \<in> gs \<and> errors_of nm = pre @ e # post \<and> process_errors tbl init_state pre = Inr st"
    then have "process_errors tbl init_state (errors_of nm) =
        Inl (RuntimeWarning (if length (operations e) > 1 then MultipleGates else AllQubitMethod))"
      by (simp add: process_errors_append malformed_step[OF assms(2)])
    with h show "process_noise_model tbl nm gs =
              Inl (RuntimeWarning (if length (operations e) > 1 then MultipleGates else AllQubitMethod))"
      by (simp add: process_noise_model_def d ev[symmetric])
  qed
qed

text \<open>
  An error on the pair \<open>(0, 1)\<close> followed by an all-qubit error: the second one is fatal.
\<close>

theorem malformed_event_fails_witness:
  "process_noise_model [''cx'' \<mapsto> CX]
      [(''errors'', [qerror_on ''cx'' [0, 1] (99 / 100), all_qubit_error ''cx'' (99 / 100)])] {CX}
     = Inl (RuntimeWarning AllQubitMethod)"
proof -
  let ?nm = "[(''errors'', [qerror_on ''cx'' [0, 1] (99 / 100), all_qubit_error ''cx'' (99 / 100)])]"
  let ?tbl = "[''cx'' \<mapsto> CX]"
  let ?e = "all_qubit_error ''cx'' (99 / 100)"
  have evs: "errors_of ?nm = [qerror_on ''cx'' [0, 1] (99 / 100)] @ ?e # []"
    by (simp add: errors_of_def dict_get_def is_q_or_ro_def qerror_on_def all_qubit_error_def)
  have mem: "?e \<in> set (errors_of ?nm)" by (simp add: evs)
  have mal: "malformed ?e" by (simp add: malformed_def all_qubit_error_def)
  obtain st where pre: "process_errors ?tbl init_state [qerror_on ''cx'' [0, 1] (99 / 100)] = Inr st"
    by (simp add: run_eval)
  from malformed_event_fails[OF mem mal, of ?tbl "{CX}"] evs pre
  have "process_noise_model ?tbl ?nm {CX} =
      Inl (RuntimeWarning (if length (operations ?e) > 1 then MultipleGates else AllQubitMethod))"
    by blast
  then show ?thesis by (simp add: all_qubit_error_def)
qed

subsection \<open>Coupling list and keys of the edge-error map\<close>

text \<open>
  Claim C10, as stated, fails: with errors on \<open>(0, 1)\<close> and on \<open>(1, 0)\<close> the reverse pair
  \<open>(1, 0)\<close> is in the coupling list, and the edge-error map has two keys, as many as the
  coupling list has pairs.
\<close>

theorem both_directions_equal_counts:
  "map_option edge_keys (result_of (process_noise_model [''cx'' \<mapsto> CX]
       [(''errors'', [qerror_on ''cx'' [0, 1] (99 / 100), qerror_on ''cx'' [1, 0] (99 / 100)])] {CX}))
     = Some [(0, 1), (1, 0)]
   \<and> map_option coupling_of (result_of (process_noise_model [''cx'' \<mapsto> CX]
       [(''errors'', [qerror_on ''cx'' [0, 1] (99 / 100), qerror_on ''cx'' [1, 0] (99 / 100)])] {CX}))
     = Some [(0, 1), (1, 0)]"
  by (simp add: run_eval edge_keys_def coupling_of_def keys_def)

text \<open>
  Claim C10, amended (forward pairs and edge keys). The coupling list begins with the
  forward pairs of the two-qubit errors, one per event, and every pair after them has a free
  qubit. The keys of the edge-error map are the forward pairs and their reverses, each once.
  So the map has at least as many keys as there are different forward pairs, and more exactly
  when the reverse of some forward pair is not a forward pair itself.
\<close>

theorem forward_pairs_and_edge_keys:
  assumes run: "process_noise_model tbl nm gs = Inr c"
  shows "(\<exists>rest. coupling_of c = two_qubit_pairs (errors_of nm) @ rest \<and>
            (\<forall>p \<in> set rest. fst p \<in> free_set (errors_of nm) \<or> snd p \<in> free_set (errors_of nm))) \<and>
         distinct (edge_keys c) \<and>
         set (edge_keys c) = set (two_qubit_pairs (errors_of nm)) \<union> (set (two_qubit_pairs (errors_of nm)))\<inverse> \<and>
         card (set (two_qubit_pairs (errors_of nm))) \<le> length (edge_keys c) \<and>
         (card (set (two_qubit_pairs (errors_of nm))) < length (edge_keys c) \<longleftrightarrow>
            (\<exists>p \<in> set (two_qubit_pairs (errors_of nm)). (snd p, fst p) \<notin> set (two_qubit_pairs (errors_of nm))))"
proof -
  from process_noise_model_Inr[OF run] obtain st where
    st: "process_errors tbl init_state (errors_of nm) = Inr st" and fin: "finish st = Inr c"
    by blast
  note rs = run_summary[OF st]
  let ?P = "two_qubit_pairs (errors_of nm)"
  let ?rest = "concat (map (\<lambda>q. concat (map (\<lambda>lq. [(q, lq), (lq, q)]) (qubits_with_link_errors st)))
                   (free_qubits st)) @ permutations2 (free_qubits st)"
  have co: "coupling_of c = ?P @ ?rest"
    by (simp add: coupling_of_def finish_Inr(2)[OF fin] complete_coupling_def rs(1))
  have "\<forall>p \<in> set ?rest. fst p \<in> free_set (errors_of nm) \<or> snd p \<in> free_set (errors_of nm)"
    using completion_mentions_free[OF _ rs(6)] unfolding rs(5) by blast
  with co have part1: "\<exists>rest. coupling_of c = ?P @ rest \<and>
            (\<forall>p \<in> set rest. fst p \<in> free_set (errors_of nm) \<or> snd p \<in> free_set (errors_of nm))"
    by blast
  have ek: "edge_keys c = keys (st_link_errors st)"
    by (simp add: edge_keys_def finish_Inr(1)[OF fin])
  have d: "distinct (edge_keys c)" by (simp add: ek rs(7))
  have s: "set (edge_keys c) = set ?P \<union> (set ?P)\<inverse>" by (simp add: ek rs(4))
  have len: "length (edge_keys c) = card (set ?P \<union> (set ?P)\<inverse>)"
    using distinct_card[OF d] s by simp
  have f: "finite (set ?P)" by simp
  note cc = card_with_converse[OF f]
  have le: "card (set ?P) \<le> length (edge_keys c)"
    unfolding len by (rule cc(1))
  have lt: "card (set ?P) < length (edge_keys c) \<longleftrightarrow>
            (\<exists>p \<in> set ?P. (snd p, fst p) \<notin> set ?P)"
    unfolding len by (rule cc(2))
  from part1 d s le lt show ?thesis
    by (intro conjI)
qed

text \<open>
  One error on \<open>(0, 1)\<close>: one pair in the coupling list, two keys.
\<close>

theorem forward_pairs_and_edge_keys_witness:
  "\<exists>c. process_noise_model [''cx'' \<mapsto> CX] [(''errors'', [qerror_on ''cx'' [0, 1] (99 / 100)])] {CX} = Inr c
     \<and> coupling_of c = [(0, 1)] \<and> set (edge_keys c) = {(0, 1), (1, 0)} \<and> length (edge_keys c) = 2"
proof -
  let ?nm = "[(''errors'', [qerror_on ''cx'' [0, 1] (99 / 100)])]"
  let ?tbl = "[''cx'' \<mapsto> CX]"
  obtain c where run: "process_noise_model ?tbl ?nm {CX} = Inr c"
    and co: "coupling_of c = [(0, 1)]"
    by (simp add: run_eval coupling_of_def)
  have P: "two_qubit_pairs (errors_of ?nm) = [(0, 1)]"
    by (simp add: errors_of_def dict_get_def is_q_or_ro_def qerror_on_def two_qubit_pairs_def
        first_qubits_def)
  from forward_pairs_and_edge_keys[OF run]
  have d: "distinct (edge_keys c)" and s: "set (edge_keys c) = {(0, 1)} \<union> {(0, 1)}\<inverse>"
    unfolding P by simp_all
  from s have s': "set (edge_keys c) = {(0, 1), (1, 0)}" by auto
  have "length (edge_keys c) = card {(0, 1), (1, 0 :: int)}"
    using distinct_card[OF d] s' by simp
  then have "length (edge_keys c) = 2" by simp
  with run co s' show ?thesis by blast
qed

subsection \<open>Construction of the backend\<close>

lemma map_trivial_None:
  "trivial_noise_model nm_arg \<Longrightarrow> map_trivial_noise_model_to_none nm_arg = None"
  by (auto simp: trivial_noise_model_def map_trivial_noise_model_to_none_def split: option.splits)

lemma find_aer_simulator:
  "qiskit_aer_backend aer_simulators ''aer_simulator'' =
     Inr \<lparr> qk_name = ''aer_simulator'', basis_gates = [''cx'', ''x''], qk_method = ''automatic'' \<rparr>"
  by (simp add: qiskit_aer_backend_def aer_simulators_def)

lemma noiseless_backend_constructed:
  "AerBackend_init gate_table aer_simulators None ''automatic'' None 40 = Inr noiseless_backend"
  by (simp add: AerBackend_init_def find_aer_simulator map_trivial_noise_model_to_none_def
      get_characterisation_of_noise_model_def noiseless_backend_def Let_def
      AerBackend_attributes_def plain_backend_info_def)

lemma example_gate_set:
  "tket_gate_set_from_qiskit_backend gate_table
     \<lparr> qk_name = nm, basis_gates = [''cx'', ''x''], qk_method = m \<rparr>
   = {CX, OtherOp ''X'', Barrier, Reset, Measure, Conditional, TK1}"
proof -
  have "List.map_filter gate_table [''cx'', ''x''] = [CX, OtherOp ''X'']"
    by (simp add: List.map_filter_def gate_table_def)
  then show ?thesis
    by (auto simp: tket_gate_set_from_qiskit_backend_def)
qed

lemma gate_table_cx: "gate_table ''cx'' = Some CX"
  by (simp add: gate_table_def)

lemma noisy_backend_constructed:
  "\<exists>b. AerBackend_init gate_table aer_simulators
           (Some [(''errors'', [qerror_on ''cx'' [0, 1] (99 / 100)])]) ''automatic'' None 40 = Inr b
     \<and> has_arch b \<and> bi_architecture (backend_info b) = Architecture [(0, 1)]
     \<and> noise_model b = Some [(''errors'', [qerror_on ''cx'' [0, 1] (99 / 100)])]"
  by (simp add: AerBackend_init_def find_aer_simulator map_trivial_noise_model_to_none_def
      get_characterisation_of_noise_model_def Let_def AerBackend_attributes_def
      plain_backend_info_def example_gate_set gate_table_cx run_eval)

lemma unitary_backend_constructed:
  "\<exists>u. AerUnitaryBackend_init gate_table aer_simulators 40 = Inr u
     \<and> noise_model u = None \<and> \<not> supports_expectation u"
  by (simp add: AerUnitaryBackend_init_def qiskit_aer_backend_def aer_simulators_def Let_def)

lemma nodes_empty_iff: "nodes (Architecture cm) = [] \<longleftrightarrow> cm = []"
  by (cases cm) (auto split: prod.splits)

text \<open>For a backend that \<open>AerBackend.__init__\<close> built, \<open>_has_arch\<close> says that the
  architecture is a non-empty coupling list; otherwise the architecture is fully connected,
  or empty when crosstalk parameters were given.\<close>

lemma AerBackend_init_has_arch:
  assumes "AerBackend_init tbl aer_backends nm_arg method crosstalk n = Inr b"
  shows "(has_arch b \<longrightarrow> (\<exists>cm. bi_architecture (backend_info b) = Architecture cm \<and> cm \<noteq> []))
       \<and> (\<not> has_arch b \<longrightarrow> bi_architecture (backend_info b) = FullyConnected n
                           \<or> bi_architecture (backend_info b) = Architecture [])"
proof (cases crosstalk)
  case (Some cp)
  with assms show ?thesis
    by (auto simp: AerBackend_init_def Let_def AerBackend_attributes_def plain_backend_info_def
        split: sum.splits)
next
  case None
  from assms None obtain qb ch where
    ch: "get_characterisation_of_noise_model tbl (map_trivial_noise_model_to_none nm_arg)
           (tket_gate_set_from_qiskit_backend tbl (qb\<lparr> qk_method := method \<rparr>)
            \<union> allowed_special_gates) = Inr ch"
    and ha: "has_arch b = (nodes (architecture ch) \<noteq> [])"
    and ar: "bi_architecture (backend_info b) =
               (if nodes (architecture ch) \<noteq> [] then architecture ch else FullyConnected n)"
    by (auto simp: AerBackend_init_def Let_def AerBackend_attributes_def plain_backend_info_def
        split: sum.splits)
  have "\<exists>cm. architecture ch = Architecture cm"
  proof (cases "map_trivial_noise_model_to_none nm_arg")
    case None
    with ch show ?thesis by (auto simp: get_characterisation_of_noise_model_def)
  next
    case (Some nm)
    with ch have "process_noise_model tbl nm
        (tket_gate_set_from_qiskit_backend tbl (qb\<lparr> qk_method := method \<rparr>)
            \<union> allowed_special_gates) = Inr ch"
      by (simp add: get_characterisation_of_noise_model_def)
    from process_noise_model_Inr[OF this] obtain st where "finish st = Inr ch" by blast
    then show ?thesis by (simp add: finish_Inr(2))
  qed
  then obtain cm where cm: "architecture ch = Architecture cm" by blast
  show ?thesis
    unfolding ha ar cm nodes_empty_iff by simp
qed

text \<open>
  Claim C6 (no noise means a fully connected default). For a noise model that is absent or
  whose \<open>to_dict()\<close> has only empty lists as values, the characterisation has the empty
  architecture and no error map, and the backend that \<open>AerBackend.__init__\<close> builds without
  crosstalk parameters has the architecture \<open>FullyConnected(n_qubits)\<close>, no noise model and
  no error maps.
\<close>

theorem trivial_noise_model_falls_back:
  assumes triv: "trivial_noise_model nm_arg"
    and qb: "qiskit_aer_backend aer_backends ''aer_simulator'' = Inr qb"
  shows "get_characterisation_of_noise_model tbl (map_trivial_noise_model_to_none nm_arg) gs =
           Inr \<lparr> architecture = Architecture [], node_errors = None, edge_errors = None,
                 readout_errors = None, averaged_node_errors = None, averaged_edge_errors = None,
                 averaged_readout_errors = None, generic_q_errors = None \<rparr>
       \<and> (\<exists>b. AerBackend_init tbl aer_backends nm_arg method None n = Inr b
             \<and> bi_architecture (backend_info b) = FullyConnected n
             \<and> \<not> has_arch b \<and> noise_model b = None
             \<and> all_node_gate_errors (backend_info b) = None
             \<and> all_edge_gate_errors (backend_info b) = None
             \<and> all_readout_errors (backend_info b) = None
             \<and> averaged_node_gate_errors (backend_info b) = None
             \<and> averaged_edge_gate_errors (backend_info b) = None
             \<and> averaged_readout_errors_info (backend_info b) = None)"
proof
  show "get_characterisation_of_noise_model tbl (map_trivial_noise_model_to_none nm_arg) gs =
           Inr \<lparr> architecture = Architecture [], node_errors = None, edge_errors = None,
                 readout_errors = None, averaged_node_errors = None, averaged_edge_errors = None,
                 averaged_readout_errors = None, generic_q_errors = None \<rparr>"
    by (simp add: map_trivial_None[OF triv] get_characterisation_of_noise_model_def)
  show "\<exists>b. AerBackend_init tbl aer_backends nm_arg method None n = Inr b
             \<and> bi_architecture (backend_info b) = FullyConnected n
             \<and> \<not> has_arch b \<and> noise_model b = None
             \<and> all_node_gate_errors (backend_info b) = None
             \<and> all_edge_gate_errors (backend_info b) = None
             \<and> all_readout_errors (backend_info b) = None
             \<and> averaged_node_gate_errors (backend_info b) = None
             \<and> averaged_edge_gate_errors (backend_info b) = None
             \<and> averaged_readout_errors_info (backend_info b) = None"
    by (simp add: AerBackend_init_def qb map_trivial_None[OF triv]
        get_characterisation_of_noise_model_def Let_def AerBackend_attributes_def
        plain_backend_info_def)
qed

text \<open>
  The noise model with the empty error list.
\<close>

theorem trivial_noise_model_falls_back_witness:
  "\<exists>b. AerBackend_init gate_table aer_simulators (Some [(''errors'', [])]) ''automatic'' None 40 = Inr b
     \<and> bi_architecture (backend_info b) = FullyConnected 40 \<and> \<not> has_arch b
     \<and> noise_model b = None \<and> all_edge_gate_errors (backend_info b) = None"
proof -
  have t: "trivial_noise_model (Some [(''errors'', [])])"
    by (simp add: trivial_noise_model_def)
  from trivial_noise_model_falls_back[OF t find_aer_simulator, of gate_table "{CX}" "''automatic''" 40]
  show ?thesis by blast
qed

subsection \<open>The default compilation pass\<close>

lemma arch_dependent_shape:
  assumes lvl: "optimisation_level \<in> {0, 1, 2, 3}"
  shows "\<exists>pre post. arch_dependent_default_compilation_pass b arch optimisation_level timeout =
                 Inr (SequencePass (pre @ routing_stages arch @ post))
               \<and> post \<noteq> [] \<and> is_final_stage b (last post)
               \<and> \<not> list_ex is_routing_stage pre \<and> \<not> list_ex is_routing_stage post"
proof -
  from lvl consider "optimisation_level = 0" | "optimisation_level = 1"
    | "optimisation_level = 2" | "optimisation_level = 3" by auto
  then show ?thesis
  proof cases
    case 1
    show ?thesis
      by (rule exI[of _ "[DecomposeBoxes, rebase_pass b]"], rule exI[of _ "[rebase_pass b]"])
         (simp add: 1 arch_dependent_default_compilation_pass_def routing_stages_def
            is_final_stage_def is_routing_stage_def rebase_pass_def)
  next
    case 2
    show ?thesis
      by (rule exI[of _ "[DecomposeBoxes, SynthesiseTket]"], rule exI[of _ "[SynthesiseTket]"])
         (simp add: 2 arch_dependent_default_compilation_pass_def routing_stages_def
            is_final_stage_def is_routing_stage_def)
  next
    case 3
    show ?thesis
      by (rule exI[of _ "[DecomposeBoxes, FullPeepholeOptimise]"],
          rule exI[of _ "[CliffordSimp False, SynthesiseTket]"])
         (simp add: 3 arch_dependent_default_compilation_pass_def routing_stages_def
            is_final_stage_def is_routing_stage_def)
  next
    case 4
    show ?thesis
      by (rule exI[of _ "[DecomposeBoxes, RemoveBarriers, AutoRebase {CX, H, Rz},
                          GreedyPauliSimp timeout True 10]"],
          rule exI[of _ "[SynthesiseTket]"])
         (simp add: 4 arch_dependent_default_compilation_pass_def routing_stages_def
            is_final_stage_def is_routing_stage_def)
  qed
qed

lemma arch_independent_shape:
  assumes lvl: "optimisation_level \<in> {0, 1, 2, 3}"
  shows "\<exists>stages. arch_independent_default_compilation_pass b optimisation_level timeout =
                 Inr (SequencePass stages) \<and> \<not> list_ex is_routing_stage stages"
proof -
  from lvl consider "optimisation_level = 0" | "optimisation_level = 1"
    | "optimisation_level = 2" | "optimisation_level = 3" by auto
  then show ?thesis
    by cases
       (simp_all add: arch_independent_default_compilation_pass_def is_routing_stage_def
          rebase_pass_def)
qed

text \<open>
  Claim C8 (routing iff constrained connectivity). For the optimisation levels 0 to 3: when
  \<open>_has_arch\<close> holds and the architecture has a non-empty coupling list, the default pass is a
  sequence that contains the stages built from that architecture (the rebase to \<open>CX, TK1\<close>
  and the routing pass), with the final stage (the rebase pass or \<open>SynthesiseTket\<close>) after
  them and no other routing stage; when \<open>_has_arch\<close> does not hold or the coupling list is
  empty, the sequence has no routing stage.
\<close>

theorem routing_stage_iff_constrained:
  assumes lvl: "optimisation_level \<in> {0, 1, 2, 3}"
  shows "(has_arch b \<and> bi_architecture (backend_info b) = Architecture cm \<and> cm \<noteq> [] \<longrightarrow>
            (\<exists>pre post. default_compilation_pass b optimisation_level timeout =
                 Inr (SequencePass (pre @ routing_stages (Architecture cm) @ post))
               \<and> post \<noteq> [] \<and> is_final_stage b (last post)
               \<and> \<not> list_ex is_routing_stage pre \<and> \<not> list_ex is_routing_stage post))
       \<and> (\<not> has_arch b \<or> bi_architecture (backend_info b) = Architecture [] \<longrightarrow>
            (\<exists>stages. default_compilation_pass b optimisation_level timeout =
                 Inr (SequencePass stages)
               \<and> \<not> list_ex is_routing_stage stages))"
proof (intro conjI impI)
  assume c: "has_arch b \<and> bi_architecture (backend_info b) = Architecture cm \<and> cm \<noteq> []"
  then have d: "default_compilation_pass b optimisation_level timeout =
      arch_dependent_default_compilation_pass b (Architecture cm) optimisation_level timeout"
    by (simp add: default_compilation_pass_def)
  show "\<exists>pre post. default_compilation_pass b optimisation_level timeout =
                 Inr (SequencePass (pre @ routing_stages (Architecture cm) @ post))
               \<and> post \<noteq> [] \<and> is_final_stage b (last post)
               \<and> \<not> list_ex is_routing_stage pre \<and> \<not> list_ex is_routing_stage post"
    unfolding d by (rule arch_dependent_shape[OF lvl])
next
  assume u: "\<not> has_arch b \<or> bi_architecture (backend_info b) = Architecture []"
  then have d: "default_compilation_pass b optimisation_level timeout =
      arch_independent_default_compilation_pass b optimisation_level timeout"
    by (auto simp: default_compilation_pass_def Let_def)
  show "\<exists>stages. default_compilation_pass b optimisation_level timeout =
                 Inr (SequencePass stages) \<and> \<not> list_ex is_routing_stage stages"
    unfolding d by (rule arch_independent_shape[OF lvl])
qed

text \<open>
  The backend of a noise model with an error on \<open>(0, 1)\<close>, and the noiseless backend, at
  level 2.
\<close>

theorem routing_stage_iff_constrained_witness:
  "(\<exists>b pre post.
       AerBackend_init gate_table aer_simulators
           (Some [(''errors'', [qerror_on ''cx'' [0, 1] (99 / 100)])]) ''automatic'' None 40 = Inr b
     \<and> default_compilation_pass b 2 300 =
           Inr (SequencePass (pre @ routing_stages (Architecture [(0, 1)]) @ post))
     \<and> post \<noteq> [] \<and> is_final_stage b (last post))
   \<and> (\<exists>stages. default_compilation_pass noiseless_backend 2 300 = Inr (SequencePass stages)
         \<and> \<not> list_ex is_routing_stage stages)"
proof -
  from noisy_backend_constructed obtain b where
    init: "AerBackend_init gate_table aer_simulators
           (Some [(''errors'', [qerror_on ''cx'' [0, 1] (99 / 100)])]) ''automatic'' None 40 = Inr b"
    and c: "has_arch b \<and> bi_architecture (backend_info b) = Architecture [(0, 1)] \<and> [(0, 1 :: int)] \<noteq> []"
    by auto
  have lvl: "(2 :: int) \<in> {0, 1, 2, 3}" by simp
  from routing_stage_iff_constrained[OF lvl, of b "[(0, 1)]" 300] c init
  have first: "\<exists>b pre post.
       AerBackend_init gate_table aer_simulators
           (Some [(''errors'', [qerror_on ''cx'' [0, 1] (99 / 100)])]) ''automatic'' None 40 = Inr b
     \<and> default_compilation_pass b 2 300 =
           Inr (SequencePass (pre @ routing_stages (Architecture [(0, 1)]) @ post))
     \<and> post \<noteq> [] \<and> is_final_stage b (last post)"
    by blast
  have u: "\<not> has_arch noiseless_backend"
    by (simp add: noiseless_backend_def AerBackend_attributes_def Let_def)
  from routing_stage_iff_constrained[OF lvl, of noiseless_backend "[]" 300] u
  have "\<exists>stages. default_compilation_pass noiseless_backend 2 300 = Inr (SequencePass stages)
         \<and> \<not> list_ex is_routing_stage stages"
    by blast
  with first show ?thesis by blast
qed

subsection \<open>Expectation values\<close>

text \<open>
  Claim C9 (unsupported expectation values). With a noise model, and likewise on a backend
  without expectation support, both methods for expectation values raise at once
  (\<open>RuntimeError\<close>, resp. \<open>NotImplementedError\<close>) and leave the backend as it is: no job is
  run and nothing is computed.
\<close>

theorem expectation_value_unsupported:
  assumes "noise_model b \<noteq> None \<or> \<not> supports_expectation b"
  shows "get_pauli_expectation_value env b state_circuit pauli valid_check =
           (Inl (if noise_model b \<noteq> None then RuntimeError else NotImplementedError), b)
       \<and> get_operator_expectation_value env b state_circuit operator valid_check =
           (Inl (if noise_model b \<noteq> None then RuntimeError else NotImplementedError), b)"
  using assms
  by (auto simp: get_pauli_expectation_value_def get_operator_expectation_value_def)

text \<open>
  The backend of a noise model with an error on \<open>(0, 1)\<close>, and the unitary backend.
\<close>

theorem expectation_value_unsupported_witness:
  "(\<exists>b. AerBackend_init gate_table aer_simulators
           (Some [(''errors'', [qerror_on ''cx'' [0, 1] (99 / 100)])]) ''automatic'' None 40 = Inr b
      \<and> get_pauli_expectation_value quiet_env b (circuit_on ''c'' 2)
            [(\<lparr> reg_name = ''q'', index = [0] \<rparr>, Pauli_Z)] True = (Inl RuntimeError, b)
      \<and> get_operator_expectation_value quiet_env b (circuit_on ''c'' 2)
            [([(\<lparr> reg_name = ''q'', index = [0] \<rparr>, Pauli_Z)], 1)] True = (Inl RuntimeError, b))
   \<and> (\<exists>u. AerUnitaryBackend_init gate_table aer_simulators 40 = Inr u
      \<and> get_pauli_expectation_value quiet_env u (circuit_on ''c'' 2)
            [(\<lparr> reg_name = ''q'', index = [0] \<rparr>, Pauli_Z)] True = (Inl NotImplementedError, u)
      \<and> get_operator_expectation_value quiet_env u (circuit_on ''c'' 2)
            [([(\<lparr> reg_name = ''q'', index = [0] \<rparr>, Pauli_Z)], 1)] True
          = (Inl NotImplementedError, u))"
proof -
  from noisy_backend_constructed obtain b where
    init: "AerBackend_init gate_table aer_simulators
           (Some [(''errors'', [qerror_on ''cx'' [0, 1] (99 / 100)])]) ''automatic'' None 40 = Inr b"
    and nm: "noise_model b \<noteq> None"
    by auto
  from unitary_backend_constructed obtain u where
    uinit: "AerUnitaryBackend_init gate_table aer_simulators 40 = Inr u"
    and unm: "noise_model u = None" and uex: "\<not> supports_expectation u"
    by auto
  have hb: "noise_model b \<noteq> None \<or> \<not> supports_expectation b" using nm by simp
  have hu: "noise_model u \<noteq> None \<or> \<not> supports_expectation u" using uex by simp
  from expectation_value_unsupported[OF hb, of quiet_env "circuit_on ''c'' 2"
      "[(\<lparr> reg_name = ''q'', index = [0] \<rparr>, Pauli_Z)]" True
      "[([(\<lparr> reg_name = ''q'', index = [0] \<rparr>, Pauli_Z)], 1)]"] nm init
  have one: "\<exists>b. AerBackend_init gate_table aer_simulators
           (Some [(''errors'', [qerror_on ''cx'' [0, 1] (99 / 100)])]) ''automatic'' None 40 = Inr b
      \<and> get_pauli_expectation_value quiet_env b (circuit_on ''c'' 2)
            [(\<lparr> reg_name = ''q'', index = [0] \<rparr>, Pauli_Z)] True = (Inl RuntimeError, b)
      \<and> get_operator_expectation_value quiet_env b (circuit_on ''c'' 2)
            [([(\<lparr> reg_name = ''q'', index = [0] \<rparr>, Pauli_Z)], 1)] True = (Inl RuntimeError, b)"
    by auto
  from expectation_value_unsupported[OF hu, of quiet_env "circuit_on ''c'' 2"
      "[(\<lparr> reg_name = ''q'', index = [0] \<rparr>, Pauli_Z)]" True
      "[([(\<lparr> reg_name = ''q'', index = [0] \<rparr>, Pauli_Z)], 1)]"] unm uinit
  have two: "\<exists>u. AerUnitaryBackend_init gate_table aer_simulators 40 = Inr u
      \<and> get_pauli_expectation_value quiet_env u (circuit_on ''c'' 2)
            [(\<lparr> reg_name = ''q'', index = [0] \<rparr>, Pauli_Z)] True = (Inl NotImplementedError, u)
      \<and> get_operator_expectation_value quiet_env u (circuit_on ''c'' 2)
            [([(\<lparr> reg_name = ''q'', index = [0] \<rparr>, Pauli_Z)], 1)] True
          = (Inl NotImplementedError, u)"
    by auto
  from one two show ?thesis by blast
qed

subsection \<open>The result cache\<close>

lemma submit_two:
  "process_circuits quiet_env noiseless_backend [circuit_on ''a'' 1, circuit_on ''b'' 2]
       (Shots 10) True False None =
     (Inr [Some (0, 0, 1, ''null''), Some (0, 1, 2, ''null'')],
      noiseless_backend\<lparr>
        cache :=
          [((0, 0, 1, ''null''),
            \<lparr> job = \<lparr> job_id = 0,
                       job_qcs = [\<lparr> tk_circuit = circuit_on ''a'' 1, replace_implicit_swaps = False,
                                     saved = None, transpiled = False \<rparr>,
                                  \<lparr> tk_circuit = circuit_on ''b'' 2, replace_implicit_swaps = False,
                                     saved = None, transpiled = False \<rparr>],
                       job_shots = Some 10, job_memory = True, job_seed_simulator = None,
                       job_noise_model = None \<rparr>,
              result = None \<rparr>),
           ((0, 1, 2, ''null''),
            \<lparr> job = \<lparr> job_id = 0,
                       job_qcs = [\<lparr> tk_circuit = circuit_on ''a'' 1, replace_implicit_swaps = False,
                                     saved = None, transpiled = False \<rparr>,
                                  \<lparr> tk_circuit = circuit_on ''b'' 2, replace_implicit_swaps = False,
                                     saved = None, transpiled = False \<rparr>],
                       job_shots = Some 10, job_memory = True, job_seed_simulator = None,
                       job_noise_model = None \<rparr>,
              result = None \<rparr>)],
        run_calls := 1 \<rparr>)"
  by (simp add: process_circuits_def get_n_shots_as_list_def check_all_circuits_def quiet_env_def
      noiseless_backend_def AerBackend_attributes_def batch_circuits_def lower_circuit_def
      Let_def circuit_on_def)

lemma submit_two_equal:
  "process_circuits quiet_env noiseless_backend [circuit_on ''a'' 1, circuit_on ''b'' 1]
       (Shots 10) True False None =
     (Inr [Some (0, 0, 1, ''null''), Some (0, 1, 1, ''null'')],
      noiseless_backend\<lparr>
        cache :=
          [((0, 0, 1, ''null''),
            \<lparr> job = \<lparr> job_id = 0,
                       job_qcs = [\<lparr> tk_circuit = circuit_on ''a'' 1, replace_implicit_swaps = False,
                                     saved = None, transpiled = False \<rparr>,
                                  \<lparr> tk_circuit = circuit_on ''b'' 1, replace_implicit_swaps = False,
                                     saved = None, transpiled = False \<rparr>],
                       job_shots = Some 10, job_memory = True, job_seed_simulator = None,
                       job_noise_model = None \<rparr>,
              result = None \<rparr>),
           ((0, 1, 1, ''null''),
            \<lparr> job = \<lparr> job_id = 0,
                       job_qcs = [\<lparr> tk_circuit = circuit_on ''a'' 1, replace_implicit_swaps = False,
                                     saved = None, transpiled = False \<rparr>,
                                  \<lparr> tk_circuit = circuit_on ''b'' 1, replace_implicit_swaps = False,
                                     saved = None, transpiled = False \<rparr>],
                       job_shots = Some 10, job_memory = True, job_seed_simulator = None,
                       job_noise_model = None \<rparr>,
              result = None \<rparr>)],
        run_calls := 1 \<rparr>)"
  by (simp add: process_circuits_def get_n_shots_as_list_def check_all_circuits_def quiet_env_def
      noiseless_backend_def AerBackend_attributes_def batch_circuits_def lower_circuit_def
      Let_def circuit_on_def)

lemmas get_result_eval = get_result_def super_get_result_def job_backresults_def dict_get_def
  noiseless_backend_def AerBackend_attributes_def Let_def

text \<open>
  Claim C7 (unknown handles). For a handle without a cache entry \<open>get_result\<close> raises
  \<open>CircuitNotRunError\<close>; the backend is unchanged: no result is fetched and none is stored.
\<close>

theorem unknown_handle_not_run:
  assumes "dict_get (cache b) handle = None"
  shows "get_result b handle = (Inl (CircuitNotRunError handle), b)"
  using assms by (cases handle) (simp add: get_result_def super_get_result_def)

text \<open>
  After a submission that made job 0, a handle of job 5 is unknown.
\<close>

theorem unknown_handle_not_run_witness:
  "get_result
     (snd (process_circuits quiet_env noiseless_backend [circuit_on ''a'' 1, circuit_on ''b'' 2]
             (Shots 10) True False None))
     (5, 0, 1, ''null'')
   = (Inl (CircuitNotRunError (5, 0, 1, ''null'')),
      snd (process_circuits quiet_env noiseless_backend [circuit_on ''a'' 1, circuit_on ''b'' 2]
             (Shots 10) True False None))"
proof (rule unknown_handle_not_run)
  show "dict_get
     (cache (snd (process_circuits quiet_env noiseless_backend
                    [circuit_on ''a'' 1, circuit_on ''b'' 2] (Shots 10) True False None)))
     (5, 0, 1, ''null'') = None"
    unfolding submit_two by (simp add: dict_get_def)
qed

text \<open>
  Claim C1 (one fetch fills the cache entry of every handle of the job). Two circuits with
  one and two qubits are submitted with the same shot count, so they form one job with the
  handles \<open>(0, 0, 1, null)\<close> and \<open>(0, 1, 2, null)\<close>. \<open>get_result\<close> rebuilds the handle of
  every position with the qubit count of the handle it was asked for, so for either handle it
  looks up a handle that was never stored and ends with a \<open>KeyError\<close> instead of a result.
\<close>

theorem get_result_mixed_qubit_counts:
  "fst (process_circuits quiet_env noiseless_backend [circuit_on ''a'' 1, circuit_on ''b'' 2]
          (Shots 10) True False None)
     = Inr [Some (0, 0, 1, ''null''), Some (0, 1, 2, ''null'')]
   \<and> fst (get_result
            (snd (process_circuits quiet_env noiseless_backend
                    [circuit_on ''a'' 1, circuit_on ''b'' 2] (Shots 10) True False None))
            (0, 0, 1, ''null''))
     = Inl KeyError
   \<and> fst (get_result
            (snd (process_circuits quiet_env noiseless_backend
                    [circuit_on ''a'' 1, circuit_on ''b'' 2] (Shots 10) True False None))
            (0, 1, 2, ''null''))
     = Inl KeyError"
  unfolding submit_two by (simp add: get_result_eval)

text \<open>With equal qubit counts the loop finds every entry: one fetch fills both entries, and
  asking again returns the cached result without another fetch.\<close>

lemma get_result_equal_qubit_counts:
  "map_option res_position (result_of (fst (get_result
      (snd (process_circuits quiet_env noiseless_backend [circuit_on ''a'' 1, circuit_on ''b'' 1]
              (Shots 10) True False None))
      (0, 1, 1, ''null'')))) = Some 1
   \<and> map (\<lambda>p. map_option res_position (result (snd p))) (cache (snd (get_result
      (snd (process_circuits quiet_env noiseless_backend [circuit_on ''a'' 1, circuit_on ''b'' 1]
              (Shots 10) True False None))
      (0, 1, 1, ''null'')))) = [Some 0, Some 1]
   \<and> result_calls (snd (get_result
      (snd (process_circuits quiet_env noiseless_backend [circuit_on ''a'' 1, circuit_on ''b'' 1]
              (Shots 10) True False None))
      (0, 1, 1, ''null''))) = 1
   \<and> get_result (snd (get_result
      (snd (process_circuits quiet_env noiseless_backend [circuit_on ''a'' 1, circuit_on ''b'' 1]
              (Shots 10) True False None))
      (0, 1, 1, ''null''))) (0, 1, 1, ''null'')
     = get_result
      (snd (process_circuits quiet_env noiseless_backend [circuit_on ''a'' 1, circuit_on ''b'' 1]
              (Shots 10) True False None))
      (0, 1, 1, ''null'')"
  unfolding submit_two_equal by (simp add: get_result_eval result_of_def)

end
